theory Spec2Isabelle
  imports
    Main
    "HOL-Library.Sublist"
    "HOL-Library.Multiset"
    "HOL-Library.Char_ord"
    "HOL-Library.List_Lexorder"
    "HOL-Library.Product_Lexorder"
begin

section \<open>Cumulus monthly log import (bin/weeimport/cumulusimport.py)\<close>

text \<open>
  A shallow embedding of \<^verbatim>\<open>CumulusSource\<close>: its constructor (unit resolution,
  source directory, catalogue of monthly logs), \<^verbatim>\<open>getRawData\<close> (line clean-up and
  the rebuilding of the field map) and \<^verbatim>\<open>period_generator\<close>.

  Python strings are byte strings (the module is Python 2), modelled as \<open>string\<close>.
  Exceptions are values of \<open>error\<close>. What the class reads from outside itself
  (the class attribute \<^verbatim>\<open>_header_map\<close>, \<^verbatim>\<open>weewx.units.default_unit_format_dict\<close>,
  \<^verbatim>\<open>glob.glob\<close>, the file system) is a record \<open>world\<close> that is passed along and
  returned updated.
\<close>

subsection \<open>Python strings\<close>

definition newline :: string where
  \<comment> \<open>the string \<^verbatim>\<open>"\n"\<close>\<close>
  "newline = [CHR 0x0A]"

definition squote :: "string \<Rightarrow> string" where
  \<comment> \<open>\<^verbatim>\<open>'%s'\<close> in a format string: the value between two apostrophes\<close>
  "squote s = CHR 0x27 # s @ [CHR 0x27]"

definition py_str :: "string option \<Rightarrow> string" where
  \<comment> \<open>\<^verbatim>\<open>%s\<close> applied to a string or to \<^verbatim>\<open>None\<close>\<close>
  "py_str v = (case v of None \<Rightarrow> ''None'' | Some s \<Rightarrow> s)"

text \<open>
  \<^verbatim>\<open>s.replace(old, new)\<close>: every non-overlapping occurrence, left to right. With an
  empty \<^verbatim>\<open>old\<close> Python inserts \<^verbatim>\<open>new\<close> before every character and at the end.
\<close>

function str_replace :: "string \<Rightarrow> string \<Rightarrow> string \<Rightarrow> string" where
  "str_replace old new [] = (if old = [] then new else [])"
| "str_replace old new (c # cs) =
     (if old = [] then new @ c # str_replace old new cs
      else if prefix old (c # cs) then new @ str_replace old new (drop (length old) (c # cs))
      else c # str_replace old new cs)"
  by pat_completeness auto
termination
  by (relation "measure (\<lambda>(old, new, s). length s)") (auto simp: Suc_le_eq)

text \<open>
  \<^verbatim>\<open>s.replace(old, new, 1)\<close>: the first occurrence only. With an empty \<^verbatim>\<open>old\<close>
  Python 2 puts \<^verbatim>\<open>new\<close> in front of a non-empty \<^verbatim>\<open>s\<close> and leaves the empty
  string as it is.
\<close>

fun str_replace1 :: "string \<Rightarrow> string \<Rightarrow> string \<Rightarrow> string" where
  "str_replace1 old new [] = []"
| "str_replace1 old new (c # cs) =
     (if prefix old (c # cs) then new @ drop (length old) (c # cs)
      else c # str_replace1 old new cs)"

definition slice_from_end :: "string \<Rightarrow> nat \<Rightarrow> nat \<Rightarrow> string" where
  \<comment> \<open>\<^verbatim>\<open>s[-a:-b]\<close> for \<open>0 < b\<close>; Python clamps the start at 0, as \<open>-\<close> on \<open>nat\<close> does\<close>
  "slice_from_end s a b = drop (length s - a) (take (length s - b) s)"

subsection \<open>Errors\<close>

datatype error =
    UnitError string
  | ViolatedPrecondition string
  | WeeImportIOError string
  | ValueError string
  | KeyError string
  | TypeError string

subsection \<open>Configuration, field table and the outside world\<close>

text \<open>
  \<^verbatim>\<open>cumulus_config_dict\<close>: the keys the class reads. A key that is absent is
  \<open>None\<close>; the \<^verbatim>\<open>Units\<close> section is a dictionary of scalar strings, kept as the
  list of its items.
\<close>

record cumulus_config =
  cfg_decimal :: "string option"
  cfg_delimiter :: "string option"
  cfg_Units :: "(string \<times> string) list option"
  cfg_directory :: "string option"

record field_spec =
  units :: "string option"
  map_to :: string

type_synonym header_map = "string \<rightharpoonup> field_spec"

definition field_list :: "string list" where
  \<comment> \<open>the class attribute \<^verbatim>\<open>_field_list\<close>\<close>
  "field_list =
     [''datetime'', ''cur_out_temp'', ''cur_out_hum'',
      ''cur_dewpoint'', ''avg_wind_speed'', ''gust_wind_speed'',
      ''avg_wind_bearing'', ''cur_rain_rate'', ''day_rain'', ''cur_slp'',
      ''rain_counter'', ''curr_in_temp'', ''cur_in_hum'',
      ''lastest_wind_gust'', ''cur_windchill'', ''cur_heatindex'',
      ''cur_uv'', ''cur_solar'', ''cur_et'', ''annual_et'',
      ''cur_app_temp'', ''cur_tmax_solar'', ''day_sunshine_hours'',
      ''cur_wind_bearing'', ''day_rain_rg11'', ''midnight_rain'']"

definition header_map_init :: header_map where
  \<comment> \<open>the class attribute \<^verbatim>\<open>_header_map\<close> as the class body creates it\<close>
  "header_map_init = map_of
     [(''datetime'', \<lparr>units = Some ''unix_epoch'', map_to = ''dateTime''\<rparr>),
      (''cur_out_temp'', \<lparr>units = None, map_to = ''outTemp''\<rparr>),
      (''curr_in_temp'', \<lparr>units = None, map_to = ''inTemp''\<rparr>),
      (''cur_dewpoint'', \<lparr>units = None, map_to = ''dewpoint''\<rparr>),
      (''cur_slp'', \<lparr>units = None, map_to = ''barometer''\<rparr>),
      (''avg_wind_bearing'', \<lparr>units = Some ''degree_compass'', map_to = ''windDir''\<rparr>),
      (''avg_wind_speed'', \<lparr>units = None, map_to = ''windSpeed''\<rparr>),
      (''cur_heatindex'', \<lparr>units = None, map_to = ''heatindex''\<rparr>),
      (''gust_wind_speed'', \<lparr>units = None, map_to = ''windGust''\<rparr>),
      (''cur_windchill'', \<lparr>units = None, map_to = ''windchill''\<rparr>),
      (''cur_out_hum'', \<lparr>units = Some ''percent'', map_to = ''outHumidity''\<rparr>),
      (''cur_in_hum'', \<lparr>units = Some ''percent'', map_to = ''inHumidity''\<rparr>),
      (''midnight_rain'', \<lparr>units = None, map_to = ''rain''\<rparr>),
      (''cur_rain_rate'', \<lparr>units = None, map_to = ''rainRate''\<rparr>),
      (''cur_solar'', \<lparr>units = Some ''watt_per_meter_squared'', map_to = ''radiation''\<rparr>),
      (''cur_uv'', \<lparr>units = Some ''uv_index'', map_to = ''UV''\<rparr>),
      (''cur_app_temp'', \<lparr>units = None, map_to = ''appTemp''\<rparr>)]"

definition rain_units_dict :: "(string \<times> string) list" where
  "rain_units_dict = [(''inch'', ''inch_per_hour''), (''mm'', ''mm_per_hour'')]"

text \<open>
  The world outside an instance.
  \<^item> \<open>header_map\<close>: \<^verbatim>\<open>CumulusSource._header_map\<close>, one dictionary owned by the class;
    \<^verbatim>\<open>self._header_map\<close> reads this attribute for every instance.
  \<^item> \<open>default_unit_format_dict\<close>: the keys of \<^verbatim>\<open>weewx.units.default_unit_format_dict\<close>
    (that module is not part of this file, so the table is a parameter).
  \<^item> \<open>glob\<close>: \<^verbatim>\<open>glob.glob\<close>, from a pattern to the matching paths in listing order.
  \<^item> \<open>files\<close>: the regular files, each with what \<^verbatim>\<open>readlines()\<close> returns.
  \<^item> \<open>opened\<close>: the paths passed to \<^verbatim>\<open>open\<close> so far, oldest first.
\<close>

record world =
  header_map :: header_map
  default_unit_format_dict :: "string set"
  glob :: "string \<Rightarrow> string list"
  files :: "string \<rightharpoonup> string list"
  opened :: "string list"

subsection \<open>Writing units into the class dictionary\<close>

definition set_units :: "string \<Rightarrow> string \<Rightarrow> world \<Rightarrow> error option \<times> world" where
  \<comment> \<open>\<^verbatim>\<open>self._header_map[k]['units'] = u\<close>; a missing \<open>k\<close> raises KeyError\<close>
  "set_units k u w =
     (case header_map w k of
        None \<Rightarrow> (Some (KeyError k), w)
      | Some fs \<Rightarrow> (None, w\<lparr>header_map := (header_map w)(k \<mapsto> fs\<lparr>units := Some u\<rparr>)\<rparr>))"

fun set_units_all :: "string list \<Rightarrow> string \<Rightarrow> world \<Rightarrow> error option \<times> world" where
  "set_units_all [] u w = (None, w)"
| "set_units_all (k # ks) u w =
     (case set_units k u w of
        (Some e, w') \<Rightarrow> (Some e, w')
      | (None, w') \<Rightarrow> set_units_all ks u w')"

definition temperature_fields :: "string list" where
  "temperature_fields =
     [''cur_out_temp'', ''curr_in_temp'', ''cur_dewpoint'',
      ''cur_heatindex'', ''cur_windchill'', ''cur_app_temp'']"

definition speed_fields :: "string list" where
  "speed_fields = [''avg_wind_speed'', ''gust_wind_speed'']"

definition no_units_msg :: "string \<Rightarrow> string \<Rightarrow> string" where
  "no_units_msg quantity path =
     ''No units specified for Cumulus '' @ quantity @ '' fields in '' @ path @ ''.''"

definition unknown_units_msg :: "string option \<Rightarrow> string \<Rightarrow> string \<Rightarrow> string" where
  "unknown_units_msg u quantity path =
     ''Unknown units '' @ squote (py_str u) @ '' specified for Cumulus '' @ quantity
       @ '' fields in '' @ path @ ''.''"

text \<open>
  The four blocks of \<^verbatim>\<open>__init__\<close>, lines 129 to 187. The \<^verbatim>\<open>try\<close> part is the
  lookup \<^verbatim>\<open>cumulus_config_dict['Units'].get(q)\<close>: it raises when there is no
  \<^verbatim>\<open>Units\<close> section, and returns \<^verbatim>\<open>None\<close> when the section has no key \<open>q\<close>.
\<close>

definition units_temperature :: "cumulus_config \<Rightarrow> string \<Rightarrow> world \<Rightarrow> error option \<times> world" where
  "units_temperature cfg path w =
     (case cfg_Units cfg of
        None \<Rightarrow> (Some (UnitError (no_units_msg ''temperature'' path)), w)
      | Some sec \<Rightarrow>
          (case map_of sec ''temperature'' of
             Some temp_u \<Rightarrow>
               if temp_u \<in> default_unit_format_dict w
               then set_units_all temperature_fields temp_u w
               else (Some (UnitError (unknown_units_msg (Some temp_u) ''temperature'' path)), w)
           | None \<Rightarrow> (Some (UnitError (unknown_units_msg None ''temperature'' path)), w)))"

definition units_pressure :: "cumulus_config \<Rightarrow> string \<Rightarrow> world \<Rightarrow> error option \<times> world" where
  "units_pressure cfg path w =
     (case cfg_Units cfg of
        None \<Rightarrow> (Some (UnitError (no_units_msg ''pressure'' path)), w)
      | Some sec \<Rightarrow>
          (case map_of sec ''pressure'' of
             Some press_u \<Rightarrow>
               if press_u \<in> set [''inHg'', ''mbar'', ''hPa'']
               then set_units ''cur_slp'' press_u w
               else (Some (UnitError (unknown_units_msg (Some press_u) ''pressure'' path)), w)
           | None \<Rightarrow> (Some (UnitError (unknown_units_msg None ''pressure'' path)), w)))"

definition units_rain :: "cumulus_config \<Rightarrow> string \<Rightarrow> world \<Rightarrow> error option \<times> world" where
  "units_rain cfg path w =
     (case cfg_Units cfg of
        None \<Rightarrow> (Some (UnitError (no_units_msg ''rain'' path)), w)
      | Some sec \<Rightarrow>
          (case map_of sec ''rain'' of
             Some rain_u \<Rightarrow>
               (case map_of rain_units_dict rain_u of
                  Some rate_u \<Rightarrow>
                    (case set_units ''midnight_rain'' rain_u w of
                       (Some e, w') \<Rightarrow> (Some e, w')
                     | (None, w') \<Rightarrow> set_units ''cur_rain_rate'' rate_u w')
                | None \<Rightarrow> (Some (UnitError (unknown_units_msg (Some rain_u) ''rain'' path)), w))
           | None \<Rightarrow> (Some (UnitError (unknown_units_msg None ''rain'' path)), w)))"

definition units_speed :: "cumulus_config \<Rightarrow> string \<Rightarrow> world \<Rightarrow> error option \<times> world" where
  "units_speed cfg path w =
     (case cfg_Units cfg of
        None \<Rightarrow> (Some (UnitError (no_units_msg ''speed'' path)), w)
      | Some sec \<Rightarrow>
          (case map_of sec ''speed'' of
             Some speed_u \<Rightarrow>
               if speed_u \<in> default_unit_format_dict w
               then set_units_all speed_fields speed_u w
               else (Some (UnitError (unknown_units_msg (Some speed_u) ''speed'' path)), w)
           | None \<Rightarrow> (Some (UnitError (unknown_units_msg None ''speed'' path)), w)))"

definition resolve_units :: "cumulus_config \<Rightarrow> string \<Rightarrow> world \<Rightarrow> error option \<times> world" where
  \<comment> \<open>the four blocks in the order of the source; the first error ends the constructor\<close>
  "resolve_units cfg path w =
     (case units_temperature cfg path w of
        (Some e, w1) \<Rightarrow> (Some e, w1)
      | (None, w1) \<Rightarrow>
     (case units_pressure cfg path w1 of
        (Some e, w2) \<Rightarrow> (Some e, w2)
      | (None, w2) \<Rightarrow>
     (case units_rain cfg path w2 of
        (Some e, w3) \<Rightarrow> (Some e, w3)
      | (None, w3) \<Rightarrow> units_speed cfg path w3)))"

subsection \<open>The instance\<close>

text \<open>
  The attributes of a \<^verbatim>\<open>CumulusSource\<close> that this file assigns. \<open>map_field\<close> is
  \<^verbatim>\<open>self.map\<close>, of whatever type \<^verbatim>\<open>parseMap\<close> returns. \<open>map_builds\<close> is a history
  variable and not an attribute of the Python object: it counts the executions of the
  assignment \<^verbatim>\<open>self.map = self.parseMap(...)\<close> of line 292.
\<close>

record 'm cumulus_source =
  import_config_path :: string
  cumulus_config_dict :: cumulus_config
  wind_dir :: "int list"
  decimal :: string
  delimiter :: string
  raw_datetime_format :: string
  rain :: string
  map_field :: "'m option"
  map_builds :: nat
  source :: string
  log_list :: "string list"
  first_period :: bool
  last_period :: bool

subsection \<open>The catalogue of monthly logs\<close>

definition str_lower :: "string \<Rightarrow> string" where
  "str_lower s =
     map (\<lambda>c. case map_of (zip ''ABCDEFGHIJKLMNOPQRSTUVWXYZ'' ''abcdefghijklmnopqrstuvwxyz'') c of
                 Some l \<Rightarrow> l | None \<Rightarrow> c) s"

definition month_table :: "(string \<times> nat) list" where
  "month_table =
     [(''jan'', 1), (''feb'', 2), (''mar'', 3), (''apr'', 4), (''may'', 5), (''jun'', 6),
      (''jul'', 7), (''aug'', 8), (''sep'', 9), (''oct'', 10), (''nov'', 11), (''dec'', 12)]"

definition strptime_b :: "string \<Rightarrow> nat option" where
  \<comment> \<open>\<^verbatim>\<open>time.strptime(s, '%b').tm_mon\<close> in the C locale: the abbreviated month name,
      matched without regard to case; \<open>None\<close> stands for the ValueError\<close>
  "strptime_b s = map_of month_table (str_lower s)"

fun month_keys :: "string list \<Rightarrow> error + (string \<times> string \<times> nat) list" where
  \<comment> \<open>the comprehension \<^verbatim>\<open>_temp\<close>: \<^verbatim>\<open>(fn, fn[-9:-7], strptime(fn[-12:-9], '%b').tm_mon)\<close>;
      the ValueError carries the fragment that is no month, not Python's message\<close>
  "month_keys [] = Inr []"
| "month_keys (fn # fns) =
     (case strptime_b (slice_from_end fn 12 9) of
        None \<Rightarrow> Inl (ValueError (slice_from_end fn 12 9))
      | Some m \<Rightarrow>
          (case month_keys fns of
             Inl e \<Rightarrow> Inl e
           | Inr rest \<Rightarrow> Inr ((fn, slice_from_end fn 9 7, m) # rest)))"

definition sorted_logs :: "(string \<times> string \<times> nat) list \<Rightarrow> string list" where
  \<comment> \<open>\<^verbatim>\<open>[a[0] for a in sorted(_temp, key = lambda el : (el[1], el[2]))]\<close>;
      \<^verbatim>\<open>sorted\<close> is stable, as \<open>sort_key\<close> is\<close>
  "sorted_logs temp = map fst (sort_key (\<lambda>el. (fst (snd el), snd (snd el))) temp)"

subsection \<open>The constructor\<close>

text \<open>
  \<open>self0\<close> is the instance as the parent class's \<^verbatim>\<open>__init__\<close> leaves it (that class is
  not part of this file). Logging and printing are left out. The result is the error
  raised or the finished instance, together with the world as the constructor leaves it:
  units already written into the class dictionary stay there when a later step raises.
\<close>

definition init ::
  "cumulus_config \<Rightarrow> string \<Rightarrow> 'm cumulus_source \<Rightarrow> world \<Rightarrow> (error + 'm cumulus_source) \<times> world"
where
  "init cfg path self0 w =
     (let self1 = self0\<lparr>import_config_path := path,
                        cumulus_config_dict := cfg,
                        wind_dir := [0, 360],
                        decimal := (case cfg_decimal cfg of None \<Rightarrow> ''.'' | Some d \<Rightarrow> d),
                        delimiter := (case cfg_delimiter cfg of None \<Rightarrow> '','' | Some d \<Rightarrow> d),
                        raw_datetime_format := ''%d/%m/%y %H:%M'',
                        rain := ''cumulative'',
                        map_field := None,
                        map_builds := 0\<rparr>
      in case resolve_units cfg path w of
           (Some e, w') \<Rightarrow> (Inl e, w')
         | (None, w') \<Rightarrow>
             (case cfg_directory cfg of
                None \<Rightarrow>
                  (Inl (ViolatedPrecondition
                     (''Cumulus monthly logs directory not specified in '' @ squote path @ ''.'')), w')
              | Some dir \<Rightarrow>
                  (case month_keys (glob w' (dir @ ''/?????log.txt'')) of
                     Inl e \<Rightarrow> (Inl e, w')
                   | Inr temp \<Rightarrow>
                       if length (sorted_logs temp) = 0
                       then (Inl (WeeImportIOError
                              (''No Cumulus monthly logs found in directory '' @ squote dir @ ''.'')), w')
                       else (Inr (self1\<lparr>source := dir, log_list := sorted_logs temp\<rparr>), w'))))"

subsection \<open>Reading one monthly log\<close>

fun clean_loop :: "string \<Rightarrow> string \<Rightarrow> string list \<Rightarrow> string list \<Rightarrow> string list" where
  \<comment> \<open>the \<^verbatim>\<open>for _row in _raw_data\<close> loop; the third argument is \<^verbatim>\<open>_clean_data\<close>\<close>
  "clean_loop dec del clean_data [] = clean_data"
| "clean_loop dec del clean_data (row # rows) =
     (let line = str_replace dec ''.'' row in
      if line \<noteq> newline
      then clean_loop dec del (clean_data @ [str_replace1 del '' '' line]) rows
      else clean_loop dec del clean_data rows)"

text \<open>
  \<^verbatim>\<open>csv.DictReader(_clean_data, fieldnames=self._field_list, delimiter=self.delimiter)\<close>:
  the reader is lazy, so it is modelled as what it was given. The \<^verbatim>\<open>csv\<close> module
  refuses a delimiter that is not one character with a TypeError when the reader is made.
\<close>

record dict_reader =
  rd_lines :: "string list"
  rd_fieldnames :: "string list"
  rd_delimiter :: string

text \<open>
  \<^verbatim>\<open>parseMap\<close> belongs to the parent class, which is not part of this file: it is the
  parameter \<open>parseMap\<close>, a function of the class's field table (\<^verbatim>\<open>self._header_map\<close>)
  and of its three arguments.
\<close>

definition getRawData ::
  "(header_map \<Rightarrow> string \<Rightarrow> dict_reader \<Rightarrow> cumulus_config \<Rightarrow> 'm) \<Rightarrow>
   string \<Rightarrow> 'm cumulus_source \<Rightarrow> world \<Rightarrow> (error + dict_reader \<times> 'm cumulus_source) \<times> world"
where
  "getRawData parseMap period self w =
     (case files w period of
        None \<Rightarrow>
          (Inl (WeeImportIOError
             (''Cumulus monthly log file '' @ squote period @ '' could not be found.'')), w)
      | Some raw_data \<Rightarrow>
          (let w' = w\<lparr>opened := opened w @ [period]\<rparr>;
               clean_data = clean_loop (decimal self) (delimiter self) [] raw_data
           in if length (delimiter self) \<noteq> 1
              then (Inl (TypeError (CHR 0x22 # ''delimiter'' @ CHR 0x22 # '' must be an 1-character string'')), w')
              else
                (let reader = \<lparr>rd_lines = clean_data, rd_fieldnames = field_list,
                               rd_delimiter = delimiter self\<rparr>
                 in (Inr (reader,
                       self\<lparr>map_field :=
                              Some (parseMap (header_map w') ''Cumulus'' reader (cumulus_config_dict self)),
                            map_builds := Suc (map_builds self)\<rparr>), w'))))"

subsection \<open>The period generator\<close>

text \<open>
  The generator's own state is its position in \<^verbatim>\<open>self.log_list\<close>. One \<^verbatim>\<open>next()\<close>
  either sets the two flags on the instance and yields a file name, or ends.
\<close>

definition period_generator_next ::
  "nat \<Rightarrow> 'm cumulus_source \<Rightarrow> (string \<times> nat \<times> 'm cumulus_source) option"
where
  "period_generator_next i self =
     (if i < length (log_list self)
      then (let month = log_list self ! i
            in Some (month, Suc i,
                 self\<lparr>first_period := (month = log_list self ! 0),
                      last_period := (month = last (log_list self))\<rparr>))
      else None)"

function period_generator ::
  "nat \<Rightarrow> 'm cumulus_source \<Rightarrow> (string \<times> bool \<times> bool) list"
where
  \<comment> \<open>iteration to exhaustion: at each yield, the file name and the two flags as the
      caller sees them on the instance\<close>
  "period_generator i self =
     (case period_generator_next i self of
        None \<Rightarrow> []
      | Some (month, i', self') \<Rightarrow>
          (month, first_period self', last_period self') # period_generator i' self')"
  by pat_completeness auto
termination
  by (relation "measure (\<lambda>(i, self). length (log_list self) - i)")
     (auto simp: period_generator_next_def Let_def split: if_splits)

text \<open>
  The parent's \<^verbatim>\<open>run()\<close> loops over the periods that \<^verbatim>\<open>period_generator\<close> yields
  (see the generator's docstring) and calls \<^verbatim>\<open>getRawData\<close> on each. Only that
  sequence of calls is kept here; what \<^verbatim>\<open>run()\<close> does with the rows is left out.
\<close>

fun import_periods ::
  "(header_map \<Rightarrow> string \<Rightarrow> dict_reader \<Rightarrow> cumulus_config \<Rightarrow> 'm) \<Rightarrow>
   string list \<Rightarrow> 'm cumulus_source \<Rightarrow> world \<Rightarrow> (error + 'm cumulus_source) \<times> world"
where
  "import_periods parseMap [] self w = (Inr self, w)"
| "import_periods parseMap (period # periods) self w =
     (case getRawData parseMap period self w of
        (Inl e, w') \<Rightarrow> (Inl e, w')
      | (Inr (reader, self'), w') \<Rightarrow> import_periods parseMap periods self' w')"

definition instance_header_map :: "'m cumulus_source \<Rightarrow> world \<Rightarrow> header_map" where
  \<comment> \<open>\<^verbatim>\<open>self._header_map\<close>: no instance ever gets an attribute of that name, so the
      lookup ends at the class attribute, whichever instance it starts from\<close>
  "instance_header_map self w = header_map w"

subsection \<open>Notions used to state the properties\<close>

definition with_units :: "string list \<Rightarrow> string \<Rightarrow> header_map \<Rightarrow> header_map" where
  \<comment> \<open>the field table with the unit \<open>u\<close> in the entries of the keys \<open>ks\<close>\<close>
  "with_units ks u hm =
     (\<lambda>k. if k \<in> set ks then map_option (\<lambda>fs. fs\<lparr>units := Some u\<rparr>) (hm k) else hm k)"

definition unit_of :: "header_map \<Rightarrow> string \<Rightarrow> string option" where
  \<comment> \<open>\<^verbatim>\<open>hm[k]['units']\<close>, \<open>None\<close> when either key is missing\<close>
  "unit_of hm k = (case hm k of None \<Rightarrow> None | Some fs \<Rightarrow> units fs)"

definition unit_fields :: "string list" where
  \<comment> \<open>the keys whose entries the constructor writes\<close>
  "unit_fields =
     temperature_fields @ [''cur_slp'', ''midnight_rain'', ''cur_rain_rate''] @ speed_fields"

definition header_keys_ok :: "world \<Rightarrow> bool" where
  \<comment> \<open>the class dictionary has the keys the constructor writes to; true of
      \<open>header_map_init\<close> and kept by every constructor call\<close>
  "header_keys_ok w = list_all (\<lambda>k. header_map w k \<noteq> None) unit_fields"

definition log_pattern :: "string \<Rightarrow> string" where
  "log_pattern dir = dir @ ''/?????log.txt''"

definition log_key :: "string \<Rightarrow> string \<times> nat" where
  \<comment> \<open>the two-part sort key of a file name, for a name whose month fragment is valid\<close>
  "log_key fn =
     (slice_from_end fn 9 7,
      case strptime_b (slice_from_end fn 12 9) of Some m \<Rightarrow> m | None \<Rightarrow> 0)"

definition month_ok :: "string \<Rightarrow> bool" where
  \<comment> \<open>the three characters before the year are a month abbreviation\<close>
  "month_ok fn = (strptime_b (slice_from_end fn 12 9) \<noteq> None)"

fun split_char :: "char \<Rightarrow> string \<Rightarrow> string list" where
  \<comment> \<open>\<^verbatim>\<open>s.split(d)\<close> for a one-character separator\<close>
  "split_char d [] = [[]]"
| "split_char d (c # cs) =
     (if c = d then [] # split_char d cs
      else (case split_char d cs of
              [] \<Rightarrow> [[c]]
            | f # fs \<Rightarrow> (c # f) # fs))"

definition units_written ::
  "string \<Rightarrow> string \<Rightarrow> string \<Rightarrow> string \<Rightarrow> string \<Rightarrow> header_map \<Rightarrow> header_map" where
  \<comment> \<open>the field table after the four blocks have written their units\<close>
  "units_written temp_u press_u rain_u rate_u speed_u hm =
     with_units speed_fields speed_u
       (with_units [''cur_rain_rate''] rate_u
         (with_units [''midnight_rain''] rain_u
           (with_units [''cur_slp''] press_u
             (with_units temperature_fields temp_u hm))))"

definition key_triple :: "string \<Rightarrow> string \<times> string \<times> nat" where
  \<comment> \<open>the element of \<^verbatim>\<open>_temp\<close> for a file name\<close>
  "key_triple fn = (fn, fst (log_key fn), snd (log_key fn))"

subsection \<open>A concrete configuration, world and instance\<close>

definition example_config :: cumulus_config where
  "example_config =
     \<lparr>cfg_decimal = None, cfg_delimiter = None,
      cfg_Units = Some [(''temperature'', ''degree_C''), (''pressure'', ''hPa''),
                        (''rain'', ''mm''), (''speed'', ''km_per_hour'')],
      cfg_directory = Some ''/logs''\<rparr>"

definition example_world :: world where
  "example_world =
     \<lparr>header_map = header_map_init,
      default_unit_format_dict = {''degree_C'', ''degree_F'', ''km_per_hour'', ''mile_per_hour''},
      glob = (\<lambda>p. if p = ''/logs/?????log.txt''
                  then [''/logs/Jan16log.txt'', ''/logs/Dec15log.txt''] else []),
      files = [''/logs/Dec15log.txt'' \<mapsto> [''31/12/15,23:50,4.1,80'' @ newline, newline],
               ''/logs/Jan16log.txt'' \<mapsto> [''01/01/16,00:00,5.2,81'' @ newline]],
      opened = []\<rparr>"

definition example_self :: "string list cumulus_source" where
  \<comment> \<open>an instance before the constructor body runs\<close>
  "example_self =
     \<lparr>import_config_path = [], cumulus_config_dict = example_config, wind_dir = [],
      decimal = [], delimiter = [], raw_datetime_format = [], rain = [],
      map_field = None, map_builds = 0, source = [], log_list = [],
      first_period = False, last_period = False\<rparr>"

definition example_instance :: "string list cumulus_source" where
  \<comment> \<open>an instance as the constructor leaves it for \<open>example_config\<close>\<close>
  "example_instance =
     \<lparr>import_config_path = ''import.conf'', cumulus_config_dict = example_config,
      wind_dir = [0, 360], decimal = ''.'', delimiter = '','',
      raw_datetime_format = ''%d/%m/%y %H:%M'', rain = ''cumulative'',
      map_field = None, map_builds = 0, source = ''/logs'',
      log_list = [''/logs/Dec15log.txt'', ''/logs/Jan16log.txt''],
      first_period = False, last_period = False\<rparr>"

definition rows_parseMap :: "header_map \<Rightarrow> string \<Rightarrow> dict_reader \<Rightarrow> cumulus_config \<Rightarrow> string list" where
  \<comment> \<open>a stand-in for \<^verbatim>\<open>parseMap\<close> whose result shows which reader it was given\<close>
  "rows_parseMap hm source_type reader cfg = rd_lines reader"


definition example_config_no_pressure :: cumulus_config where
  "example_config_no_pressure =
     \<lparr>cfg_decimal = None, cfg_delimiter = None,
      cfg_Units = Some [(''temperature'', ''degree_C''), (''rain'', ''mm''),
                        (''speed'', ''km_per_hour'')],
      cfg_directory = Some ''/logs''\<rparr>"

definition example_config_empty_dir :: cumulus_config where
  "example_config_empty_dir =
     \<lparr>cfg_decimal = None, cfg_delimiter = None,
      cfg_Units = Some [(''temperature'', ''degree_C''), (''pressure'', ''hPa''),
                        (''rain'', ''mm''), (''speed'', ''km_per_hour'')],
      cfg_directory = Some ''/empty''\<rparr>"

definition example_world_units :: world where
  \<comment> \<open>\<open>example_world\<close> after the units of \<open>example_config\<close> have been written\<close>
  "example_world_units =
     example_world\<lparr>header_map :=
       units_written ''degree_C'' ''hPa'' ''mm'' ''mm_per_hour'' ''km_per_hour''
         (header_map example_world)\<rparr>"

definition period_reader :: "'m cumulus_source \<Rightarrow> world \<Rightarrow> string \<Rightarrow> dict_reader" where
  \<comment> \<open>the reader that \<^verbatim>\<open>getRawData\<close> makes for a period\<close>
  "period_reader self w period =
     \<lparr>rd_lines = clean_loop (decimal self) (delimiter self) []
                   (case files w period of None \<Rightarrow> [] | Some raw \<Rightarrow> raw),
      rd_fieldnames = field_list, rd_delimiter = delimiter self\<rparr>"





definition month_names :: "string list" where
  "month_names =
     [''jan'', ''feb'', ''mar'', ''apr'', ''may'', ''jun'',
      ''jul'', ''aug'', ''sep'', ''oct'', ''nov'', ''dec'']"

fun index_from :: "nat \<Rightarrow> string \<Rightarrow> string list \<Rightarrow> nat" where
  \<comment> \<open>the position of \<open>x\<close> in the list, counted from \<open>n\<close>; 0 when it is not there\<close>
  "index_from n x [] = 0"
| "index_from n x (y # ys) = (if x = y then n else index_from (Suc n) x ys)"

definition month_number :: "string \<Rightarrow> nat" where
  \<comment> \<open>the number of the month that three letters abbreviate, in either case;
      0 when they abbreviate no month\<close>
  "month_number s = index_from 1 (str_lower s) month_names"

definition month_sort_key :: "string \<Rightarrow> string \<times> nat" where
  \<comment> \<open>the two-part key of a file name: the two characters of the year, then the
      number of the month\<close>
  "month_sort_key fn = (slice_from_end fn 9 7, month_number (slice_from_end fn 12 9))"

definition has_month :: "string \<Rightarrow> bool" where
  \<comment> \<open>the three characters before the year abbreviate a month\<close>
  "has_month fn = (month_number (slice_from_end fn 12 9) \<noteq> 0)"

definition example_world_months :: world where
  "example_world_months =
     example_world\<lparr>glob := (\<lambda>p. if p = ''/logs/?????log.txt''
        then [''/logs/Apr15log.txt'', ''/logs/Jan16log.txt'', ''/logs/Jan15log.txt'',
              ''/logs/Dec15log.txt'']
        else [])\<rparr>"

definition example_world_daily :: world where
  "example_world_daily =
     example_world\<lparr>glob := (\<lambda>p. if p = ''/logs/?????log.txt''
        then [''/logs/Jan16log.txt'', ''/logs/dailylog.txt''] else [])\<rparr>"

definition unit_allowed :: "world \<Rightarrow> string \<Rightarrow> string option \<Rightarrow> bool" where
  \<comment> \<open>the test that the block of a quantity applies to the value looked up for it\<close>
  "unit_allowed w quantity v =
     (case v of
        None \<Rightarrow> False
      | Some u \<Rightarrow>
          if quantity = ''pressure'' then u \<in> set [''inHg'', ''mbar'', ''hPa'']
          else if quantity = ''rain'' then u \<in> set (map fst rain_units_dict)
          else u \<in> default_unit_format_dict w)"

definition first_rejected :: "world \<Rightarrow> (string \<times> string) list \<Rightarrow> string option" where
  \<comment> \<open>the first quantity, in the order of the blocks, whose declared unit is missing
      or not allowed\<close>
  "first_rejected w sec =
     find (\<lambda>q. \<not> unit_allowed w q (map_of sec q)) [''temperature'', ''pressure'', ''rain'', ''speed'']"

definition example_config_kelvin :: cumulus_config where
  "example_config_kelvin =
     \<lparr>cfg_decimal = None, cfg_delimiter = None,
      cfg_Units = Some [(''temperature'', ''kelvin''), (''rain'', ''mm''),
                        (''speed'', ''km_per_hour'')],
      cfg_directory = Some ''/logs''\<rparr>"

section \<open>Auxiliary facts\<close>

subsection \<open>Writes to the class dictionary\<close>

lemma set_units_frame:
  "set_units k u w = (r, w') \<Longrightarrow> \<exists>hm. w' = w\<lparr>header_map := hm\<rparr>"
  by (auto simp: set_units_def split: option.splits intro: exI[of _ "header_map w"])

lemma set_units_None:
  "set_units k u w = (None, w') \<longleftrightarrow>
     header_map w k \<noteq> None \<and> w' = w\<lparr>header_map := with_units [k] u (header_map w)\<rparr>"
  by (auto simp: set_units_def with_units_def fun_eq_iff split: option.splits intro!: arg_cong[where f="\<lambda>h. w\<lparr>header_map := h\<rparr>"])

lemma with_units_Cons:
  "with_units (k # ks) u hm = with_units ks u (with_units [k] u hm)"
  by (auto simp: with_units_def fun_eq_iff option.map_comp o_def)

lemma with_units_None [simp]: "with_units ks u hm k = None \<longleftrightarrow> hm k = None"
  by (simp add: with_units_def)

lemma with_units_Nil [simp]: "with_units [] u hm = hm"
  by (simp add: with_units_def)

lemma set_units_all_None:
  "set_units_all ks u w = (None, w') \<longleftrightarrow>
     list_all (\<lambda>k. header_map w k \<noteq> None) ks \<and> w' = w\<lparr>header_map := with_units ks u (header_map w)\<rparr>"
proof (induction ks arbitrary: w)
  case Nil
  show ?case by auto
next
  case (Cons k ks)
  show ?case
  proof (cases "set_units k u w")
    case (Pair r w1)
    show ?thesis
    proof (cases r)
      case None
      with Pair have w1: "header_map w k \<noteq> None" "w1 = w\<lparr>header_map := with_units [k] u (header_map w)\<rparr>"
        by (simp_all add: set_units_None)
      show ?thesis
        using Pair None Cons.IH[of w1] w1
        by (simp add: with_units_Cons[of k ks] list_all_iff)
    next
      case (Some e)
      with Pair have "header_map w k = None"
        by (auto simp: set_units_def split: option.splits)
      with Pair Some show ?thesis by simp
    qed
  qed
qed

lemma set_units_all_frame:
  "set_units_all ks u w = (r, w') \<Longrightarrow> \<exists>hm. w' = w\<lparr>header_map := hm\<rparr>"
proof (induction ks arbitrary: w)
  case Nil
  then show ?case by (auto intro: exI[of _ "header_map w"])
next
  case (Cons k ks)
  obtain r1 w1 where s: "set_units k u w = (r1, w1)" by (cases "set_units k u w")
  from set_units_frame[OF s] obtain hm1 where w1: "w1 = w\<lparr>header_map := hm1\<rparr>" ..
  show ?case
  proof (cases r1)
    case None
    with Cons.prems s have "set_units_all ks u w1 = (r, w')" by simp
    from Cons.IH[OF this] w1 show ?thesis by auto
  next
    case (Some e)
    with Cons.prems s w1 show ?thesis by auto
  qed
qed

lemma keys_ok_parts:
  assumes "header_keys_ok w"
  shows "list_all (\<lambda>k. header_map w k \<noteq> None) temperature_fields"
    and "header_map w ''cur_slp'' \<noteq> None"
    and "header_map w ''midnight_rain'' \<noteq> None"
    and "header_map w ''cur_rain_rate'' \<noteq> None"
    and "list_all (\<lambda>k. header_map w k \<noteq> None) speed_fields"
  using assms by (simp_all add: header_keys_ok_def unit_fields_def)

lemma unit_of_with_units:
  "k \<in> set ks \<Longrightarrow> hm k \<noteq> None \<Longrightarrow> unit_of (with_units ks u hm) k = Some u"
  by (auto simp: unit_of_def with_units_def)

lemma unit_of_with_units_other:
  "k \<notin> set ks \<Longrightarrow> unit_of (with_units ks u hm) k = unit_of hm k"
  by (simp add: unit_of_def with_units_def)


lemma units_temperature_valid:
  assumes "header_keys_ok w" "cfg_Units cfg = Some sec" "map_of sec ''temperature'' = Some u"
    "u \<in> default_unit_format_dict w"
  shows "units_temperature cfg path w =
           (None, w\<lparr>header_map := with_units temperature_fields u (header_map w)\<rparr>)"
  using assms keys_ok_parts(1)[OF assms(1)]
  by (simp add: units_temperature_def set_units_all_None)

lemma units_speed_valid:
  assumes "header_keys_ok w" "cfg_Units cfg = Some sec" "map_of sec ''speed'' = Some u"
    "u \<in> default_unit_format_dict w"
  shows "units_speed cfg path w =
           (None, w\<lparr>header_map := with_units speed_fields u (header_map w)\<rparr>)"
  using assms keys_ok_parts(5)[OF assms(1)]
  by (simp add: units_speed_def set_units_all_None)

lemma units_pressure_valid:
  assumes "header_keys_ok w" "cfg_Units cfg = Some sec" "map_of sec ''pressure'' = Some u"
    "u \<in> {''inHg'', ''mbar'', ''hPa''}"
  shows "units_pressure cfg path w =
           (None, w\<lparr>header_map := with_units [''cur_slp''] u (header_map w)\<rparr>)"
  using assms keys_ok_parts(2)[OF assms(1)]
  by (auto simp add: units_pressure_def set_units_None)

lemma units_rain_valid:
  assumes "header_keys_ok w" "cfg_Units cfg = Some sec" "map_of sec ''rain'' = Some u"
    "map_of rain_units_dict u = Some rate"
  shows "units_rain cfg path w =
           (None, w\<lparr>header_map :=
              with_units [''cur_rain_rate''] rate (with_units [''midnight_rain''] u (header_map w))\<rparr>)"
proof -
  let ?w1 = "w\<lparr>header_map := with_units [''midnight_rain''] u (header_map w)\<rparr>"
  have 1: "set_units ''midnight_rain'' u w = (None, ?w1)"
    using keys_ok_parts(3)[OF assms(1)] by (simp add: set_units_None)
  have 2: "set_units ''cur_rain_rate'' rate ?w1 =
      (None, ?w1\<lparr>header_map := with_units [''cur_rain_rate''] rate (header_map ?w1)\<rparr>)"
    using keys_ok_parts(4)[OF assms(1)] by (simp add: set_units_None)
  show ?thesis
    using assms(2-4) 1 2 by (simp add: units_rain_def)
qed

lemma units_invalid:
  assumes "cfg_Units cfg = Some sec"
  shows "map_of sec ''temperature'' = Some u \<Longrightarrow> u \<notin> default_unit_format_dict w \<Longrightarrow>
           units_temperature cfg path w =
             (Some (UnitError (unknown_units_msg (Some u) ''temperature'' path)), w)"
    and "map_of sec ''pressure'' = Some u \<Longrightarrow> u \<notin> {''inHg'', ''mbar'', ''hPa''} \<Longrightarrow>
           units_pressure cfg path w =
             (Some (UnitError (unknown_units_msg (Some u) ''pressure'' path)), w)"
    and "map_of sec ''rain'' = Some u \<Longrightarrow> map_of rain_units_dict u = None \<Longrightarrow>
           units_rain cfg path w =
             (Some (UnitError (unknown_units_msg (Some u) ''rain'' path)), w)"
    and "map_of sec ''speed'' = Some u \<Longrightarrow> u \<notin> default_unit_format_dict w \<Longrightarrow>
           units_speed cfg path w =
             (Some (UnitError (unknown_units_msg (Some u) ''speed'' path)), w)"
  using assms
  by (simp_all add: units_temperature_def units_pressure_def units_rain_def units_speed_def)

lemma units_missing_key:
  assumes "cfg_Units cfg = Some sec"
  shows "map_of sec ''temperature'' = None \<Longrightarrow>
           units_temperature cfg path w =
             (Some (UnitError (unknown_units_msg None ''temperature'' path)), w)"
    and "map_of sec ''pressure'' = None \<Longrightarrow>
           units_pressure cfg path w =
             (Some (UnitError (unknown_units_msg None ''pressure'' path)), w)"
    and "map_of sec ''rain'' = None \<Longrightarrow>
           units_rain cfg path w =
             (Some (UnitError (unknown_units_msg None ''rain'' path)), w)"
    and "map_of sec ''speed'' = None \<Longrightarrow>
           units_speed cfg path w =
             (Some (UnitError (unknown_units_msg None ''speed'' path)), w)"
  using assms
  by (simp_all add: units_temperature_def units_pressure_def units_rain_def units_speed_def)

lemma rain_units_dict_dom:
  "map_of rain_units_dict u = None \<longleftrightarrow> u \<notin> {''inch'', ''mm''}"
  by (auto simp: rain_units_dict_def)

lemma msgs_differ: "no_units_msg q path \<noteq> unknown_units_msg v q' path'"
  by (simp add: no_units_msg_def unknown_units_msg_def)

lemma set_units_not_UnitError: "set_units k u w \<noteq> (Some (UnitError m), w')"
  by (simp add: set_units_def split: option.splits)

lemma set_units_all_not_UnitError: "set_units_all ks u w \<noteq> (Some (UnitError m), w')"
proof (induction ks arbitrary: w)
  case Nil
  show ?case by simp
next
  case (Cons k ks)
  obtain r1 w1 where s: "set_units k u w = (r1, w1)" by (cases "set_units k u w")
  show ?case
    using s Cons.IH[of w1] set_units_not_UnitError[of k u w]
    by (cases r1) auto
qed

lemma no_units_iff:
  shows "(\<exists>w'. units_temperature cfg path w = (Some (UnitError (no_units_msg ''temperature'' path)), w'))
           \<longleftrightarrow> cfg_Units cfg = None"
    and "(\<exists>w'. units_pressure cfg path w = (Some (UnitError (no_units_msg ''pressure'' path)), w'))
           \<longleftrightarrow> cfg_Units cfg = None"
    and "(\<exists>w'. units_rain cfg path w = (Some (UnitError (no_units_msg ''rain'' path)), w'))
           \<longleftrightarrow> cfg_Units cfg = None"
    and "(\<exists>w'. units_speed cfg path w = (Some (UnitError (no_units_msg ''speed'' path)), w'))
           \<longleftrightarrow> cfg_Units cfg = None"
  using set_units_all_not_UnitError set_units_not_UnitError
  by (auto simp: units_temperature_def units_pressure_def units_rain_def units_speed_def msgs_differ msgs_differ[symmetric]
      split: option.splits prod.splits)

subsection \<open>Unit resolution as a whole\<close>

lemma units_temperature_None:
  "units_temperature cfg path w = (None, w') \<longleftrightarrow>
     (\<exists>sec u. cfg_Units cfg = Some sec \<and> map_of sec ''temperature'' = Some u \<and>
        u \<in> default_unit_format_dict w \<and>
        list_all (\<lambda>k. header_map w k \<noteq> None) temperature_fields \<and>
        w' = w\<lparr>header_map := with_units temperature_fields u (header_map w)\<rparr>)"
  by (auto simp: units_temperature_def set_units_all_None split: option.splits)

lemma units_speed_None:
  "units_speed cfg path w = (None, w') \<longleftrightarrow>
     (\<exists>sec u. cfg_Units cfg = Some sec \<and> map_of sec ''speed'' = Some u \<and>
        u \<in> default_unit_format_dict w \<and>
        list_all (\<lambda>k. header_map w k \<noteq> None) speed_fields \<and>
        w' = w\<lparr>header_map := with_units speed_fields u (header_map w)\<rparr>)"
  by (auto simp: units_speed_def set_units_all_None split: option.splits)

lemma units_pressure_None:
  "units_pressure cfg path w = (None, w') \<longleftrightarrow>
     (\<exists>sec u. cfg_Units cfg = Some sec \<and> map_of sec ''pressure'' = Some u \<and>
        u \<in> {''inHg'', ''mbar'', ''hPa''} \<and>
        header_map w ''cur_slp'' \<noteq> None \<and>
        w' = w\<lparr>header_map := with_units [''cur_slp''] u (header_map w)\<rparr>)"
  by (auto simp: units_pressure_def set_units_None split: option.splits)

lemma units_rain_None:
  "units_rain cfg path w = (None, w') \<longleftrightarrow>
     (\<exists>sec u rate. cfg_Units cfg = Some sec \<and> map_of sec ''rain'' = Some u \<and>
        map_of rain_units_dict u = Some rate \<and>
        header_map w ''midnight_rain'' \<noteq> None \<and> header_map w ''cur_rain_rate'' \<noteq> None \<and>
        w' = w\<lparr>header_map :=
               with_units [''cur_rain_rate''] rate (with_units [''midnight_rain''] u (header_map w))\<rparr>)"
proof (cases "cfg_Units cfg")
  case None
  then show ?thesis by (simp add: units_rain_def)
next
  case (Some sec)
  show ?thesis
  proof (cases "map_of sec ''rain''")
    case None
    with Some show ?thesis by (simp add: units_rain_def)
  next
    case u: (Some u)
    show ?thesis
    proof (cases "map_of rain_units_dict u")
      case None
      with Some u show ?thesis by (simp add: units_rain_def)
    next
      case rate: (Some rate)
      obtain r1 w1 where s: "set_units ''midnight_rain'' u w = (r1, w1)"
        by (cases "set_units ''midnight_rain'' u w")
      show ?thesis
      proof (cases r1)
        case None
        with s have w1: "header_map w ''midnight_rain'' \<noteq> None"
          "w1 = w\<lparr>header_map := with_units [''midnight_rain''] u (header_map w)\<rparr>"
          by (simp_all add: set_units_None)
        have "units_rain cfg path w = set_units ''cur_rain_rate'' rate w1"
          using Some u rate s None by (simp add: units_rain_def)
        then show ?thesis
          using Some u rate w1 by (auto simp: set_units_None)
      next
        case (Some e)
        with s have "header_map w ''midnight_rain'' = None"
          by (auto simp: set_units_def split: option.splits)
        moreover have "units_rain cfg path w = (Some e, w1)"
          using \<open>cfg_Units cfg = Some sec\<close> u rate s Some by (simp add: units_rain_def)
        ultimately show ?thesis by simp
      qed
    qed
  qed
qed

lemma resolve_units_None:
  "resolve_units cfg path w = (None, w') \<longleftrightarrow>
     (\<exists>sec temp_u press_u rain_u rate_u speed_u.
        cfg_Units cfg = Some sec \<and>
        map_of sec ''temperature'' = Some temp_u \<and> temp_u \<in> default_unit_format_dict w \<and>
        map_of sec ''pressure'' = Some press_u \<and> press_u \<in> {''inHg'', ''mbar'', ''hPa''} \<and>
        map_of sec ''rain'' = Some rain_u \<and> map_of rain_units_dict rain_u = Some rate_u \<and>
        map_of sec ''speed'' = Some speed_u \<and> speed_u \<in> default_unit_format_dict w \<and>
        header_keys_ok w \<and>
        w' = w\<lparr>header_map := units_written temp_u press_u rain_u rate_u speed_u (header_map w)\<rparr>)"
  (is "?L \<longleftrightarrow> ?R")
proof
  assume L: ?L
  obtain r1 w1 where t: "units_temperature cfg path w = (r1, w1)"
    by (cases "units_temperature cfg path w")
  have r1: "r1 = None" using L t by (cases r1) (auto simp: resolve_units_def)
  obtain r2 w2 where p: "units_pressure cfg path w1 = (r2, w2)"
    by (cases "units_pressure cfg path w1")
  have r2: "r2 = None" using L t r1 p by (cases r2) (auto simp: resolve_units_def)
  obtain r3 w3 where r: "units_rain cfg path w2 = (r3, w3)"
    by (cases "units_rain cfg path w2")
  have r3: "r3 = None" using L t r1 p r2 r by (cases r3) (auto simp: resolve_units_def)
  have s: "units_speed cfg path w3 = (None, w')"
    using L t r1 p r2 r r3 by (simp add: resolve_units_def)
  from t r1 obtain sec temp_u where
    a: "cfg_Units cfg = Some sec" "map_of sec ''temperature'' = Some temp_u"
       "temp_u \<in> default_unit_format_dict w"
       "list_all (\<lambda>k. header_map w k \<noteq> None) temperature_fields"
       "w1 = w\<lparr>header_map := with_units temperature_fields temp_u (header_map w)\<rparr>"
    by (auto simp: units_temperature_None)
  from p r2 a(1) obtain press_u where
    b: "map_of sec ''pressure'' = Some press_u" "press_u \<in> {''inHg'', ''mbar'', ''hPa''}"
       "header_map w1 ''cur_slp'' \<noteq> None"
       "w2 = w1\<lparr>header_map := with_units [''cur_slp''] press_u (header_map w1)\<rparr>"
    by (auto simp: units_pressure_None)
  from r r3 a(1) obtain rain_u rate_u where
    c: "map_of sec ''rain'' = Some rain_u" "map_of rain_units_dict rain_u = Some rate_u"
       "header_map w2 ''midnight_rain'' \<noteq> None" "header_map w2 ''cur_rain_rate'' \<noteq> None"
       "w3 = w2\<lparr>header_map := with_units [''cur_rain_rate''] rate_u
               (with_units [''midnight_rain''] rain_u (header_map w2))\<rparr>"
    by (auto simp: units_rain_None)
  from s a(1) obtain speed_u where
    d: "map_of sec ''speed'' = Some speed_u" "speed_u \<in> default_unit_format_dict w3"
       "list_all (\<lambda>k. header_map w3 k \<noteq> None) speed_fields"
       "w' = w3\<lparr>header_map := with_units speed_fields speed_u (header_map w3)\<rparr>"
    by (auto simp: units_speed_None)
  have keys: "header_keys_ok w"
    using a(4) b(3) c(3,4) d(3) unfolding a(5) b(4) c(5)
    by (simp add: header_keys_ok_def unit_fields_def)
  have dufd: "speed_u \<in> default_unit_format_dict w"
    using d(2) unfolding a(5) b(4) c(5) by simp
  have w': "w' = w\<lparr>header_map := units_written temp_u press_u rain_u rate_u speed_u (header_map w)\<rparr>"
    unfolding d(4) c(5) b(4) a(5) by (simp add: units_written_def)
  from a(1-3) b(1,2) c(1,2) d(1) dufd keys w' show ?R by blast
next
  assume ?R
  then obtain sec temp_u press_u rain_u rate_u speed_u where
    v: "cfg_Units cfg = Some sec"
       "map_of sec ''temperature'' = Some temp_u" "temp_u \<in> default_unit_format_dict w"
       "map_of sec ''pressure'' = Some press_u" "press_u \<in> {''inHg'', ''mbar'', ''hPa''}"
       "map_of sec ''rain'' = Some rain_u" "map_of rain_units_dict rain_u = Some rate_u"
       "map_of sec ''speed'' = Some speed_u" "speed_u \<in> default_unit_format_dict w"
       "header_keys_ok w"
       "w' = w\<lparr>header_map := units_written temp_u press_u rain_u rate_u speed_u (header_map w)\<rparr>"
    by blast
  let ?w1 = "w\<lparr>header_map := with_units temperature_fields temp_u (header_map w)\<rparr>"
  let ?w2 = "?w1\<lparr>header_map := with_units [''cur_slp''] press_u (header_map ?w1)\<rparr>"
  let ?w3 = "?w2\<lparr>header_map := with_units [''cur_rain_rate''] rate_u
                (with_units [''midnight_rain''] rain_u (header_map ?w2))\<rparr>"
  have k1: "header_keys_ok ?w1" using v(10) by (simp add: header_keys_ok_def)
  have k2: "header_keys_ok ?w2" using v(10) by (simp add: header_keys_ok_def)
  have k3: "header_keys_ok ?w3" using v(10) by (simp add: header_keys_ok_def)
  have t: "units_temperature cfg path w = (None, ?w1)"
    by (rule units_temperature_valid[OF v(10) v(1) v(2) v(3)])
  have p: "units_pressure cfg path ?w1 = (None, ?w2)"
    by (rule units_pressure_valid[OF k1 v(1) v(4) v(5)])
  have r: "units_rain cfg path ?w2 = (None, ?w3)"
    by (rule units_rain_valid[OF k2 v(1) v(6) v(7)])
  have "speed_u \<in> default_unit_format_dict ?w3" using v(9) by simp
  from units_speed_valid[OF k3 v(1) v(8) this]
  have s: "units_speed cfg path ?w3 =
      (None, ?w3\<lparr>header_map := with_units speed_fields speed_u (header_map ?w3)\<rparr>)" .
  show ?L
    using t p r s v(11) by (simp add: resolve_units_def units_written_def)
qed

lemma units_block_frame:
  shows "units_temperature cfg path w = (r, w') \<Longrightarrow> \<exists>hm. w' = w\<lparr>header_map := hm\<rparr>"
    and "units_pressure cfg path w = (r, w') \<Longrightarrow> \<exists>hm. w' = w\<lparr>header_map := hm\<rparr>"
    and "units_speed cfg path w = (r, w') \<Longrightarrow> \<exists>hm. w' = w\<lparr>header_map := hm\<rparr>"
proof -
  have same: "\<exists>hm. w = w\<lparr>header_map := hm\<rparr>" by (rule exI[of _ "header_map w"]) simp
  show "units_temperature cfg path w = (r, w') \<Longrightarrow> \<exists>hm. w' = w\<lparr>header_map := hm\<rparr>"
    using same set_units_all_frame
    by (auto simp: units_temperature_def split: option.splits if_splits)
  show "units_pressure cfg path w = (r, w') \<Longrightarrow> \<exists>hm. w' = w\<lparr>header_map := hm\<rparr>"
    using same set_units_frame
    by (auto simp: units_pressure_def split: option.splits if_splits)
  show "units_speed cfg path w = (r, w') \<Longrightarrow> \<exists>hm. w' = w\<lparr>header_map := hm\<rparr>"
    using same set_units_all_frame
    by (auto simp: units_speed_def split: option.splits if_splits)
qed

lemma units_rain_frame:
  assumes "units_rain cfg path w = (r, w')"
  shows "\<exists>hm. w' = w\<lparr>header_map := hm\<rparr>"
proof -
  have same: "\<exists>hm. w = w\<lparr>header_map := hm\<rparr>" by (rule exI[of _ "header_map w"]) simp
  have two: "\<exists>hm. w2 = w\<lparr>header_map := hm\<rparr>"
    if "set_units k1 u1 w = (r1, w1)" "set_units k2 u2 w1 = (r2, w2)" for k1 u1 r1 w1 k2 u2 r2 w2
  proof -
    from set_units_frame[OF that(1)] obtain h1 where "w1 = w\<lparr>header_map := h1\<rparr>" ..
    moreover from set_units_frame[OF that(2)] obtain h2 where "w2 = w1\<lparr>header_map := h2\<rparr>" ..
    ultimately show ?thesis by auto
  qed
  show ?thesis
    using assms same set_units_frame two
    by (auto simp: units_rain_def split: option.splits prod.splits)
qed

lemma frame_trans:
  "\<exists>hm. w1 = w\<lparr>header_map := hm\<rparr> \<Longrightarrow> \<exists>hm. w2 = w1\<lparr>header_map := hm\<rparr> \<Longrightarrow>
   \<exists>hm. w2 = w\<lparr>header_map := hm\<rparr>"
  by auto

lemma resolve_units_frame:
  assumes "resolve_units cfg path w = (r, w')"
  shows "\<exists>hm. w' = w\<lparr>header_map := hm\<rparr>"
proof -
  obtain r1 w1 where t: "units_temperature cfg path w = (r1, w1)"
    by (cases "units_temperature cfg path w")
  note f1 = units_block_frame(1)[OF t]
  show ?thesis
  proof (cases r1)
    case (Some e)
    with assms t f1 show ?thesis by (simp add: resolve_units_def)
  next
    case None
    obtain r2 w2 where p: "units_pressure cfg path w1 = (r2, w2)"
      by (cases "units_pressure cfg path w1")
    note f2 = frame_trans[OF f1 units_block_frame(2)[OF p]]
    show ?thesis
    proof (cases r2)
      case (Some e)
      with assms t None p f2 show ?thesis by (simp add: resolve_units_def)
    next
      case r2: None
      obtain r3 w3 where rn: "units_rain cfg path w2 = (r3, w3)"
        by (cases "units_rain cfg path w2")
      note f3 = frame_trans[OF f2 units_rain_frame[OF rn]]
      show ?thesis
      proof (cases r3)
        case (Some e)
        with assms t None p r2 rn f3 show ?thesis by (simp add: resolve_units_def)
      next
        case r3: None
        have "units_speed cfg path w3 = (r, w')"
          using assms t None p r2 rn r3 by (simp add: resolve_units_def)
        from frame_trans[OF f3 units_block_frame(3)[OF this]] show ?thesis .
      qed
    qed
  qed
qed

subsection \<open>The catalogue and the constructor\<close>

lemma month_keys_Inr:
  "month_keys fns = Inr temp \<longleftrightarrow> list_all month_ok fns \<and> temp = map key_triple fns"
proof (induction fns arbitrary: temp)
  case Nil
  show ?case by auto
next
  case (Cons fn fns)
  show ?case
  proof (cases "strptime_b (slice_from_end fn 12 9)")
    case None
    then show ?thesis by (simp add: month_ok_def)
  next
    case (Some m)
    show ?thesis
    proof (cases "month_keys fns")
      case (Inl e)
      with Cons.IH Some show ?thesis by (auto simp: month_ok_def)
    next
      case (Inr rest)
      with Cons.IH[of rest] Some show ?thesis
        by (auto simp: month_ok_def key_triple_def log_key_def)
    qed
  qed
qed

lemma month_keys_Inl:
  "\<not> list_all month_ok fns \<Longrightarrow> \<exists>fn. month_keys fns = Inl (ValueError fn)"
proof (induction fns)
  case Nil
  then show ?case by simp
next
  case (Cons fn fns)
  show ?case
  proof (cases "strptime_b (slice_from_end fn 12 9)")
    case None
    then show ?thesis by simp
  next
    case (Some m)
    then have "month_ok fn" by (simp add: month_ok_def)
    with Cons.prems have "\<not> list_all month_ok fns" by simp
    from Cons.IH[OF this] Some show ?thesis by auto
  qed
qed

lemma insort_key_triple:
  "insort_key snd (key_triple x) (map key_triple ys) =
     map key_triple (insort_key log_key x ys)"
  by (induction ys) (simp_all add: key_triple_def)

lemma sort_key_triple:
  "sort_key snd (map key_triple fns) = map key_triple (sort_key log_key fns)"
  by (induction fns) (simp_all add: insort_key_triple)

lemma sorted_logs_eq: "sorted_logs (map key_triple fns) = sort_key log_key fns"
  by (simp add: sorted_logs_def sort_key_triple o_def key_triple_def)

lemma init_reached:
  assumes r: "resolve_units cfg path w = (None, w')"
    and d: "cfg_directory cfg = Some dir"
  shows "init cfg path self0 w =
     (case month_keys (glob w (log_pattern dir)) of
        Inl e \<Rightarrow> (Inl e, w')
      | Inr temp \<Rightarrow>
          if sorted_logs temp = []
          then (Inl (WeeImportIOError
                 (''No Cumulus monthly logs found in directory '' @ squote dir @ ''.'')), w')
          else (Inr (self0\<lparr>import_config_path := path,
                        cumulus_config_dict := cfg,
                        wind_dir := [0, 360],
                        decimal := (case cfg_decimal cfg of None \<Rightarrow> ''.'' | Some d \<Rightarrow> d),
                        delimiter := (case cfg_delimiter cfg of None \<Rightarrow> '','' | Some d \<Rightarrow> d),
                        raw_datetime_format := ''%d/%m/%y %H:%M'',
                        rain := ''cumulative'',
                        map_field := None,
                        map_builds := 0,
                        source := dir, log_list := sorted_logs temp\<rparr>), w'))"
proof -
  from resolve_units_frame[OF r] obtain hm where "w' = w\<lparr>header_map := hm\<rparr>" ..
  then have g: "glob w' = glob w" by simp
  show ?thesis
    using r d by (simp add: init_def g log_pattern_def Let_def split: sum.splits)
qed

lemma init_catalogue:
  assumes r: "resolve_units cfg path w = (None, w')"
    and d: "cfg_directory cfg = Some dir"
    and m: "list_all month_ok (glob w (log_pattern dir))"
    and n: "glob w (log_pattern dir) \<noteq> []"
  shows "\<exists>self. init cfg path self0 w = (Inr self, w') \<and>
           log_list self = sort_key log_key (glob w (log_pattern dir)) \<and>
           source self = dir \<and> map_field self = None \<and> map_builds self = 0"
proof -
  have k: "month_keys (glob w (log_pattern dir)) = Inr (map key_triple (glob w (log_pattern dir)))"
    using m by (simp add: month_keys_Inr)
  have ne: "sort_key log_key (glob w (log_pattern dir)) \<noteq> []"
    using n by (metis length_sort length_0_conv)
  show ?thesis
    unfolding init_reached[OF r d] k by (simp add: sorted_logs_eq ne)
qed

lemma init_Inr:
  assumes "init cfg path self0 w = (Inr self, w')"
  shows "\<exists>dir. resolve_units cfg path w = (None, w') \<and> cfg_directory cfg = Some dir \<and>
           list_all month_ok (glob w (log_pattern dir)) \<and> glob w (log_pattern dir) \<noteq> [] \<and>
           log_list self = sort_key log_key (glob w (log_pattern dir))"
proof -
  obtain r1 w1 where r: "resolve_units cfg path w = (r1, w1)"
    by (cases "resolve_units cfg path w")
  have r1: "r1 = None" using assms r by (cases r1) (auto simp: init_def Let_def)
  obtain dir where d: "cfg_directory cfg = Some dir"
    using assms r r1 by (cases "cfg_directory cfg") (auto simp: init_def Let_def)
  note i = init_reached[OF r[unfolded r1] d, of self0]
  obtain temp where k: "month_keys (glob w (log_pattern dir)) = Inr temp"
    using assms i by (cases "month_keys (glob w (log_pattern dir))") auto
  then have t: "list_all month_ok (glob w (log_pattern dir))"
    "temp = map key_triple (glob w (log_pattern dir))"
    by (simp_all add: month_keys_Inr)
  have s: "sorted_logs temp \<noteq> []" "w1 = w'" "log_list self = sorted_logs temp"
    using assms i k by (auto split: if_splits)
  have "glob w (log_pattern dir) \<noteq> []"
    using s(1) t(2) by (auto simp: sorted_logs_def)
  with r r1 d t s show ?thesis by (auto simp: sorted_logs_eq)
qed

lemma example_world_keys_ok: "header_keys_ok example_world"
  by (simp add: header_keys_ok_def unit_fields_def temperature_fields_def speed_fields_def
      example_world_def header_map_init_def)

section \<open>Unit resolution\<close>



lemma init_units_error:
  "resolve_units cfg path w = (Some e, w') \<Longrightarrow> init cfg path self0 w = (Inl e, w')"
  by (simp add: init_def Let_def)

lemma resolve_units_first:
  "units_temperature cfg path w = (Some e, w') \<Longrightarrow> resolve_units cfg path w = (Some e, w')"
  by (simp add: resolve_units_def)

lemma resolve_units_second:
  "units_temperature cfg path w = (None, w1) \<Longrightarrow> units_pressure cfg path w1 = (Some e, w') \<Longrightarrow>
   resolve_units cfg path w = (Some e, w')"
  by (simp add: resolve_units_def)

lemma resolve_units_third:
  "units_temperature cfg path w = (None, w1) \<Longrightarrow> units_pressure cfg path w1 = (None, w2) \<Longrightarrow>
   units_rain cfg path w2 = (Some e, w') \<Longrightarrow> resolve_units cfg path w = (Some e, w')"
  by (simp add: resolve_units_def)

lemma resolve_units_fourth:
  "units_temperature cfg path w = (None, w1) \<Longrightarrow> units_pressure cfg path w1 = (None, w2) \<Longrightarrow>
   units_rain cfg path w2 = (None, w3) \<Longrightarrow> units_speed cfg path w3 = r \<Longrightarrow>
   resolve_units cfg path w = r"
  by (simp add: resolve_units_def)

lemma unknown_None_text:
  "unknown_units_msg None q path =
     ''Unknown units '' @ [CHR 0x27] @ ''None'' @ [CHR 0x27] @ '' specified for Cumulus '' @ q
       @ '' fields in '' @ path @ ''.''"
  by (simp add: unknown_units_msg_def squote_def py_str_def)

lemma set_units_all_ok:
  "list_all (\<lambda>k. header_map w k \<noteq> None) ks \<Longrightarrow>
   set_units_all ks u w = (None, w\<lparr>header_map := with_units ks u (header_map w)\<rparr>)"
  by (simp add: set_units_all_None)

lemma header_keys_ok_with_units:
  "header_keys_ok (w\<lparr>header_map := with_units ks u (header_map w)\<rparr>) \<longleftrightarrow> header_keys_ok w"
  by (simp add: header_keys_ok_def)

lemma header_keys_ok_with_units2:
  "header_keys_ok (w\<lparr>header_map := with_units ks u (with_units ks' u' (header_map w))\<rparr>)
     \<longleftrightarrow> header_keys_ok w"
  by (simp add: header_keys_ok_def)

lemma units_temperature_error:
  assumes "list_all (\<lambda>k. header_map w k \<noteq> None) temperature_fields" "cfg_Units cfg = Some sec"
    "units_temperature cfg path w = (Some e, w')"
  shows "\<exists>v. e = UnitError (unknown_units_msg v ''temperature'' path)"
  using assms set_units_all_ok[of w temperature_fields]
  by (auto simp: units_temperature_def split: option.splits if_splits)

lemma units_speed_error:
  assumes "list_all (\<lambda>k. header_map w k \<noteq> None) speed_fields" "cfg_Units cfg = Some sec"
    "units_speed cfg path w = (Some e, w')"
  shows "\<exists>v. e = UnitError (unknown_units_msg v ''speed'' path)"
  using assms set_units_all_ok[of w speed_fields]
  by (auto simp: units_speed_def split: option.splits if_splits)

lemma units_pressure_error:
  assumes "header_map w ''cur_slp'' \<noteq> None" "cfg_Units cfg = Some sec"
    "units_pressure cfg path w = (Some e, w')"
  shows "\<exists>v. e = UnitError (unknown_units_msg v ''pressure'' path)"
  using assms
  by (auto simp: units_pressure_def set_units_def split: option.splits if_splits)

lemma units_rain_error:
  assumes "header_map w ''midnight_rain'' \<noteq> None" "header_map w ''cur_rain_rate'' \<noteq> None"
    "cfg_Units cfg = Some sec" "units_rain cfg path w = (Some e, w')"
  shows "\<exists>v. e = UnitError (unknown_units_msg v ''rain'' path)"
  using assms
  by (auto simp: units_rain_def set_units_def split: option.splits if_splits)

lemma resolve_units_error:
  assumes keys: "header_keys_ok w" and sec: "cfg_Units cfg = Some sec"
    and r: "resolve_units cfg path w = (Some e, w')"
  shows "\<exists>v q. e = UnitError (unknown_units_msg v q path)"
proof -
  note k = keys_ok_parts[OF keys]
  obtain r1 w1 where t: "units_temperature cfg path w = (r1, w1)"
    by (cases "units_temperature cfg path w")
  show ?thesis
  proof (cases r1)
    case (Some e1)
    with r t have "e1 = e" by (simp add: resolve_units_def)
    with units_temperature_error[OF k(1) sec t[unfolded Some]] show ?thesis by blast
  next
    case None
    from t[unfolded None] have w1: "\<exists>u. w1 = w\<lparr>header_map := with_units temperature_fields u (header_map w)\<rparr>"
      by (auto simp: units_temperature_None)
    then have k1: "header_keys_ok w1" using keys by (auto simp: header_keys_ok_with_units)
    note k' = keys_ok_parts[OF k1]
    obtain r2 w2 where p: "units_pressure cfg path w1 = (r2, w2)"
      by (cases "units_pressure cfg path w1")
    show ?thesis
    proof (cases r2)
      case (Some e2)
      with r t None p have "e2 = e" by (simp add: resolve_units_def)
      with units_pressure_error[OF k'(2) sec p[unfolded Some]] show ?thesis by blast
    next
      case r2: None
      from p[unfolded r2] have "\<exists>u. w2 = w1\<lparr>header_map := with_units [''cur_slp''] u (header_map w1)\<rparr>"
        by (auto simp: units_pressure_None)
      then have k2: "header_keys_ok w2" using k1 by (auto simp: header_keys_ok_with_units)
      note k'' = keys_ok_parts[OF k2]
      obtain r3 w3 where rn: "units_rain cfg path w2 = (r3, w3)"
        by (cases "units_rain cfg path w2")
      show ?thesis
      proof (cases r3)
        case (Some e3)
        with r t None p r2 rn have "e3 = e" by (simp add: resolve_units_def)
        with units_rain_error[OF k''(3) k''(4) sec rn[unfolded Some]] show ?thesis by blast
      next
        case r3: None
        from rn[unfolded r3] have "\<exists>u rate. w3 = w2\<lparr>header_map := with_units [''cur_rain_rate''] rate
            (with_units [''midnight_rain''] u (header_map w2))\<rparr>"
          by (auto simp: units_rain_None)
        then have k3: "header_keys_ok w3" using k2 by (auto simp: header_keys_ok_with_units2)
        have "units_speed cfg path w3 = (Some e, w')"
          using r t None p r2 rn r3 by (simp add: resolve_units_def)
        from units_speed_error[OF keys_ok_parts(5)[OF k3] sec this] show ?thesis by blast
      qed
    qed
  qed
qed

lemma init_missing_key:
  assumes keys: "header_keys_ok w" and sec: "cfg_Units cfg = Some sec"
    and m: "map_of sec ''temperature'' = None \<or> map_of sec ''pressure'' = None \<or>
            map_of sec ''rain'' = None \<or> map_of sec ''speed'' = None"
  shows "\<exists>v q w'. init cfg path self0 w = (Inl (UnitError (unknown_units_msg v q path)), w')"
proof -
  obtain r w' where r: "resolve_units cfg path w = (r, w')"
    by (cases "resolve_units cfg path w")
  have "r \<noteq> None"
  proof
    assume "r = None"
    with r have "resolve_units cfg path w = (None, w')" by simp
    then show False using sec m unfolding resolve_units_None by auto
  qed
  then obtain e where e: "r = Some e" by blast
  from resolve_units_error[OF keys sec r[unfolded e]] init_units_error[OF r[unfolded e]]
  show ?thesis by blast
qed

lemma block_rejects:
  assumes sec: "cfg_Units cfg = Some sec"
  shows "\<not> unit_allowed w ''temperature'' (map_of sec ''temperature'') \<Longrightarrow>
           units_temperature cfg path w =
             (Some (UnitError (unknown_units_msg (map_of sec ''temperature'') ''temperature'' path)), w)"
    and "\<not> unit_allowed w ''pressure'' (map_of sec ''pressure'') \<Longrightarrow>
           units_pressure cfg path w =
             (Some (UnitError (unknown_units_msg (map_of sec ''pressure'') ''pressure'' path)), w)"
    and "\<not> unit_allowed w ''rain'' (map_of sec ''rain'') \<Longrightarrow>
           units_rain cfg path w =
             (Some (UnitError (unknown_units_msg (map_of sec ''rain'') ''rain'' path)), w)"
    and "\<not> unit_allowed w ''speed'' (map_of sec ''speed'') \<Longrightarrow>
           units_speed cfg path w =
             (Some (UnitError (unknown_units_msg (map_of sec ''speed'') ''speed'' path)), w)"
proof -
  assume a: "\<not> unit_allowed w ''temperature'' (map_of sec ''temperature'')"
  show "units_temperature cfg path w =
      (Some (UnitError (unknown_units_msg (map_of sec ''temperature'') ''temperature'' path)), w)"
  proof (cases "map_of sec ''temperature''")
    case None
    from units_missing_key(1)[OF sec None] None show ?thesis by simp
  next
    case (Some u)
    with a have "u \<notin> default_unit_format_dict w" by (simp add: unit_allowed_def)
    from units_invalid(1)[OF sec Some this] Some show ?thesis by simp
  qed
next
  assume a: "\<not> unit_allowed w ''pressure'' (map_of sec ''pressure'')"
  show "units_pressure cfg path w =
      (Some (UnitError (unknown_units_msg (map_of sec ''pressure'') ''pressure'' path)), w)"
  proof (cases "map_of sec ''pressure''")
    case None
    from units_missing_key(2)[OF sec None] None show ?thesis by simp
  next
    case (Some u)
    with a have "u \<notin> {''inHg'', ''mbar'', ''hPa''}" by (simp add: unit_allowed_def)
    from units_invalid(2)[OF sec Some this] Some show ?thesis by simp
  qed
next
  assume a: "\<not> unit_allowed w ''rain'' (map_of sec ''rain'')"
  show "units_rain cfg path w =
      (Some (UnitError (unknown_units_msg (map_of sec ''rain'') ''rain'' path)), w)"
  proof (cases "map_of sec ''rain''")
    case None
    from units_missing_key(3)[OF sec None] None show ?thesis by simp
  next
    case (Some u)
    with a have "map_of rain_units_dict u = None"
      by (simp add: unit_allowed_def map_of_eq_None_iff)
    from units_invalid(3)[OF sec Some this] Some show ?thesis by simp
  qed
next
  assume a: "\<not> unit_allowed w ''speed'' (map_of sec ''speed'')"
  show "units_speed cfg path w =
      (Some (UnitError (unknown_units_msg (map_of sec ''speed'') ''speed'' path)), w)"
  proof (cases "map_of sec ''speed''")
    case None
    from units_missing_key(4)[OF sec None] None show ?thesis by simp
  next
    case (Some u)
    with a have "u \<notin> default_unit_format_dict w" by (simp add: unit_allowed_def)
    from units_invalid(4)[OF sec Some this] Some show ?thesis by simp
  qed
qed

lemma block_accepts:
  assumes keys: "header_keys_ok w" and sec: "cfg_Units cfg = Some sec"
  shows "unit_allowed w ''temperature'' (map_of sec ''temperature'') \<Longrightarrow>
           \<exists>hm. units_temperature cfg path w = (None, w\<lparr>header_map := hm\<rparr>) \<and>
                header_keys_ok (w\<lparr>header_map := hm\<rparr>)"
    and "unit_allowed w ''pressure'' (map_of sec ''pressure'') \<Longrightarrow>
           \<exists>hm. units_pressure cfg path w = (None, w\<lparr>header_map := hm\<rparr>) \<and>
                header_keys_ok (w\<lparr>header_map := hm\<rparr>)"
    and "unit_allowed w ''rain'' (map_of sec ''rain'') \<Longrightarrow>
           \<exists>hm. units_rain cfg path w = (None, w\<lparr>header_map := hm\<rparr>) \<and>
                header_keys_ok (w\<lparr>header_map := hm\<rparr>)"
proof -
  assume "unit_allowed w ''temperature'' (map_of sec ''temperature'')"
  then obtain u where u: "map_of sec ''temperature'' = Some u" "u \<in> default_unit_format_dict w"
    by (auto simp: unit_allowed_def split: option.splits)
  from units_temperature_valid[OF keys sec u, of path] keys
  show "\<exists>hm. units_temperature cfg path w = (None, w\<lparr>header_map := hm\<rparr>) \<and>
                header_keys_ok (w\<lparr>header_map := hm\<rparr>)"
    by (auto simp: header_keys_ok_with_units)
next
  assume "unit_allowed w ''pressure'' (map_of sec ''pressure'')"
  then obtain u where u: "map_of sec ''pressure'' = Some u" "u \<in> {''inHg'', ''mbar'', ''hPa''}"
    by (auto simp: unit_allowed_def split: option.splits)
  from units_pressure_valid[OF keys sec u, of path] keys
  show "\<exists>hm. units_pressure cfg path w = (None, w\<lparr>header_map := hm\<rparr>) \<and>
                header_keys_ok (w\<lparr>header_map := hm\<rparr>)"
    by (auto simp: header_keys_ok_with_units)
next
  assume "unit_allowed w ''rain'' (map_of sec ''rain'')"
  then obtain u where u: "map_of sec ''rain'' = Some u" "u \<in> set (map fst rain_units_dict)"
    by (auto simp: unit_allowed_def split: option.splits)
  then obtain rate where rate: "map_of rain_units_dict u = Some rate"
    by (cases "map_of rain_units_dict u") (auto simp: map_of_eq_None_iff)
  from units_rain_valid[OF keys sec u(1) rate, of path] keys
  show "\<exists>hm. units_rain cfg path w = (None, w\<lparr>header_map := hm\<rparr>) \<and>
                header_keys_ok (w\<lparr>header_map := hm\<rparr>)"
    by (auto simp: header_keys_ok_with_units2)
qed

lemma unit_allowed_frame:
  "unit_allowed (w\<lparr>header_map := hm\<rparr>) q v = unit_allowed w q v"
  by (cases v) (simp_all add: unit_allowed_def)

lemma init_first_rejected:
  assumes keys: "header_keys_ok w" and sec: "cfg_Units cfg = Some sec"
    and f: "first_rejected w sec = Some q"
  shows "\<exists>w'. init cfg path self0 w =
           (Inl (UnitError (unknown_units_msg (map_of sec q) q path)), w')"
proof (cases "unit_allowed w ''temperature'' (map_of sec ''temperature'')")
  case False
  with f have q: "q = ''temperature''" by (simp add: first_rejected_def)
  from init_units_error[OF resolve_units_first[OF block_rejects(1)[OF sec False]]]
  show ?thesis unfolding q by blast
next
  case t: True
  from block_accepts(1)[OF keys sec t, of path] obtain h1 where
    b1: "units_temperature cfg path w = (None, w\<lparr>header_map := h1\<rparr>)"
    and k1: "header_keys_ok (w\<lparr>header_map := h1\<rparr>)" by blast
  show ?thesis
  proof (cases "unit_allowed w ''pressure'' (map_of sec ''pressure'')")
    case False
    with f t have q: "q = ''pressure''" by (simp add: first_rejected_def)
    from False have "\<not> unit_allowed (w\<lparr>header_map := h1\<rparr>) ''pressure'' (map_of sec ''pressure'')"
      by (simp add: unit_allowed_frame)
    from init_units_error[OF resolve_units_second[OF b1 block_rejects(2)[OF sec this]]]
    show ?thesis unfolding q by blast
  next
    case p: True
    then have "unit_allowed (w\<lparr>header_map := h1\<rparr>) ''pressure'' (map_of sec ''pressure'')"
      by (simp add: unit_allowed_frame)
    from block_accepts(2)[OF k1 sec this, of path] obtain h2 where
      b2: "units_pressure cfg path (w\<lparr>header_map := h1\<rparr>) = (None, w\<lparr>header_map := h2\<rparr>)"
      and k2: "header_keys_ok (w\<lparr>header_map := h2\<rparr>)" by auto
    show ?thesis
    proof (cases "unit_allowed w ''rain'' (map_of sec ''rain'')")
      case False
      with f t p have q: "q = ''rain''" by (simp add: first_rejected_def)
      from False have "\<not> unit_allowed (w\<lparr>header_map := h2\<rparr>) ''rain'' (map_of sec ''rain'')"
        by (simp add: unit_allowed_frame)
      from init_units_error[OF resolve_units_third[OF b1 b2 block_rejects(3)[OF sec this]]]
      show ?thesis unfolding q by blast
    next
      case rn: True
      then have "unit_allowed (w\<lparr>header_map := h2\<rparr>) ''rain'' (map_of sec ''rain'')"
        by (simp add: unit_allowed_frame)
      from block_accepts(3)[OF k2 sec this, of path] obtain h3 where
        b3: "units_rain cfg path (w\<lparr>header_map := h2\<rparr>) = (None, w\<lparr>header_map := h3\<rparr>)"
        by auto
      from f t p rn have q: "q = ''speed''"
        and s: "\<not> unit_allowed w ''speed'' (map_of sec ''speed'')"
        by (auto simp: first_rejected_def split: if_splits)
      from s have "\<not> unit_allowed (w\<lparr>header_map := h3\<rparr>) ''speed'' (map_of sec ''speed'')"
        by (simp add: unit_allowed_frame)
      from init_units_error[OF resolve_units_fourth[OF b1 b2 b3 block_rejects(4)[OF sec this]]]
      show ?thesis unfolding q by blast
    qed
  qed
qed

section \<open>A Units section without a quantity's key\<close>

text \<open>
  Claim C10, as amended. In each of the four blocks the branch "No units specified" is
  taken exactly when the configuration has no \<^verbatim>\<open>Units\<close> section. When the section is
  there but has no key for a quantity, the lookup \<^verbatim>\<open>.get(q)\<close> returns \<^verbatim>\<open>None\<close> without
  raising and the block of that quantity raises through its "Unknown units" branch, with
  the unit printed as \<^verbatim>\<open>'None'\<close>, and writes nothing. The constructor runs the blocks in
  the order temperature, pressure, rain, speed and stops at the first error. So the
  constructor fails with that error when the blocks before the quantity's own have passed
  (for temperature: always). In general, with the section present, the constructor fails
  through the "Unknown units" branch of the first quantity whose unit is missing or not
  allowed, printing the value looked up for that quantity; it never succeeds with a key
  missing and never reports "No units specified".
\<close>

theorem missing_quantity_key:
  shows
    "((\<exists>w'. units_temperature cfg path w =
          (Some (UnitError (no_units_msg ''temperature'' path)), w')) \<longleftrightarrow> cfg_Units cfg = None) \<and>
     ((\<exists>w'. units_pressure cfg path w =
          (Some (UnitError (no_units_msg ''pressure'' path)), w')) \<longleftrightarrow> cfg_Units cfg = None) \<and>
     ((\<exists>w'. units_rain cfg path w =
          (Some (UnitError (no_units_msg ''rain'' path)), w')) \<longleftrightarrow> cfg_Units cfg = None) \<and>
     ((\<exists>w'. units_speed cfg path w =
          (Some (UnitError (no_units_msg ''speed'' path)), w')) \<longleftrightarrow> cfg_Units cfg = None) \<and>
     (\<forall>sec. cfg_Units cfg = Some sec \<longrightarrow>
        (map_of sec ''temperature'' = None \<longrightarrow>
           units_temperature cfg path w =
             (Some (UnitError (unknown_units_msg None ''temperature'' path)), w) \<and>
           init cfg path self0 w =
             (Inl (UnitError (unknown_units_msg None ''temperature'' path)), w)) \<and>
        (map_of sec ''pressure'' = None \<longrightarrow>
           units_pressure cfg path w =
             (Some (UnitError (unknown_units_msg None ''pressure'' path)), w) \<and>
           (\<forall>w1. units_temperature cfg path w = (None, w1) \<longrightarrow>
              init cfg path self0 w =
                (Inl (UnitError (unknown_units_msg None ''pressure'' path)), w1))) \<and>
        (map_of sec ''rain'' = None \<longrightarrow>
           units_rain cfg path w =
             (Some (UnitError (unknown_units_msg None ''rain'' path)), w) \<and>
           (\<forall>w1 w2. units_temperature cfg path w = (None, w1) \<and>
                    units_pressure cfg path w1 = (None, w2) \<longrightarrow>
              init cfg path self0 w =
                (Inl (UnitError (unknown_units_msg None ''rain'' path)), w2))) \<and>
        (map_of sec ''speed'' = None \<longrightarrow>
           units_speed cfg path w =
             (Some (UnitError (unknown_units_msg None ''speed'' path)), w) \<and>
           (\<forall>w1 w2 w3. units_temperature cfg path w = (None, w1) \<and>
                       units_pressure cfg path w1 = (None, w2) \<and>
                       units_rain cfg path w2 = (None, w3) \<longrightarrow>
              init cfg path self0 w =
                (Inl (UnitError (unknown_units_msg None ''speed'' path)), w3)))) \<and>
     (\<forall>sec. header_keys_ok w \<and> cfg_Units cfg = Some sec \<and>
          (map_of sec ''temperature'' = None \<or> map_of sec ''pressure'' = None \<or>
           map_of sec ''rain'' = None \<or> map_of sec ''speed'' = None) \<longrightarrow>
        (\<exists>v q w'. init cfg path self0 w = (Inl (UnitError (unknown_units_msg v q path)), w'))) \<and>
     (\<forall>sec q. header_keys_ok w \<and> cfg_Units cfg = Some sec \<and> first_rejected w sec = Some q \<longrightarrow>
        (\<exists>w'. init cfg path self0 w =
           (Inl (UnitError (unknown_units_msg (map_of sec q) q path)), w'))) \<and>
     (\<forall>q. unknown_units_msg None q path =
        ''Unknown units '' @ [CHR 0x27] @ ''None'' @ [CHR 0x27] @ '' specified for Cumulus '' @ q
          @ '' fields in '' @ path @ ''.'')"
proof -
  have present: "(map_of sec ''temperature'' = None \<longrightarrow>
           units_temperature cfg path w =
             (Some (UnitError (unknown_units_msg None ''temperature'' path)), w) \<and>
           init cfg path self0 w =
             (Inl (UnitError (unknown_units_msg None ''temperature'' path)), w)) \<and>
        (map_of sec ''pressure'' = None \<longrightarrow>
           units_pressure cfg path w =
             (Some (UnitError (unknown_units_msg None ''pressure'' path)), w) \<and>
           (\<forall>w1. units_temperature cfg path w = (None, w1) \<longrightarrow>
              init cfg path self0 w =
                (Inl (UnitError (unknown_units_msg None ''pressure'' path)), w1))) \<and>
        (map_of sec ''rain'' = None \<longrightarrow>
           units_rain cfg path w =
             (Some (UnitError (unknown_units_msg None ''rain'' path)), w) \<and>
           (\<forall>w1 w2. units_temperature cfg path w = (None, w1) \<and>
                    units_pressure cfg path w1 = (None, w2) \<longrightarrow>
              init cfg path self0 w =
                (Inl (UnitError (unknown_units_msg None ''rain'' path)), w2))) \<and>
        (map_of sec ''speed'' = None \<longrightarrow>
           units_speed cfg path w =
             (Some (UnitError (unknown_units_msg None ''speed'' path)), w) \<and>
           (\<forall>w1 w2 w3. units_temperature cfg path w = (None, w1) \<and>
                       units_pressure cfg path w1 = (None, w2) \<and>
                       units_rain cfg path w2 = (None, w3) \<longrightarrow>
              init cfg path self0 w =
                (Inl (UnitError (unknown_units_msg None ''speed'' path)), w3)))"
    if sec: "cfg_Units cfg = Some sec" for sec
  proof (intro conjI impI allI)
    assume m: "map_of sec ''temperature'' = None"
    show t: "units_temperature cfg path w =
        (Some (UnitError (unknown_units_msg None ''temperature'' path)), w)"
      by (rule units_missing_key(1)[OF sec m])
    show "init cfg path self0 w =
        (Inl (UnitError (unknown_units_msg None ''temperature'' path)), w)"
      by (rule init_units_error[OF resolve_units_first[OF t]])
  next
    assume m: "map_of sec ''pressure'' = None"
    show "units_pressure cfg path w =
        (Some (UnitError (unknown_units_msg None ''pressure'' path)), w)"
      by (rule units_missing_key(2)[OF sec m])
  next
    fix w1
    assume m: "map_of sec ''pressure'' = None" and t: "units_temperature cfg path w = (None, w1)"
    show "init cfg path self0 w =
        (Inl (UnitError (unknown_units_msg None ''pressure'' path)), w1)"
      by (rule init_units_error[OF resolve_units_second[OF t units_missing_key(2)[OF sec m]]])
  next
    assume m: "map_of sec ''rain'' = None"
    show "units_rain cfg path w =
        (Some (UnitError (unknown_units_msg None ''rain'' path)), w)"
      by (rule units_missing_key(3)[OF sec m])
  next
    fix w1 w2
    assume m: "map_of sec ''rain'' = None"
      and t: "units_temperature cfg path w = (None, w1) \<and> units_pressure cfg path w1 = (None, w2)"
    show "init cfg path self0 w =
        (Inl (UnitError (unknown_units_msg None ''rain'' path)), w2)"
      by (rule init_units_error[OF resolve_units_third[OF conjunct1[OF t] conjunct2[OF t]
            units_missing_key(3)[OF sec m]]])
  next
    assume m: "map_of sec ''speed'' = None"
    show "units_speed cfg path w =
        (Some (UnitError (unknown_units_msg None ''speed'' path)), w)"
      by (rule units_missing_key(4)[OF sec m])
  next
    fix w1 w2 w3
    assume m: "map_of sec ''speed'' = None"
      and t: "units_temperature cfg path w = (None, w1) \<and> units_pressure cfg path w1 = (None, w2) \<and>
              units_rain cfg path w2 = (None, w3)"
    from t have t1: "units_temperature cfg path w = (None, w1)"
      and t2: "units_pressure cfg path w1 = (None, w2)"
      and t3: "units_rain cfg path w2 = (None, w3)" by simp_all
    show "init cfg path self0 w =
        (Inl (UnitError (unknown_units_msg None ''speed'' path)), w3)"
      by (rule init_units_error[OF resolve_units_fourth[OF t1 t2 t3 units_missing_key(4)[OF sec m]]])
  qed
  have whole: "\<forall>sec. header_keys_ok w \<and> cfg_Units cfg = Some sec \<and>
          (map_of sec ''temperature'' = None \<or> map_of sec ''pressure'' = None \<or>
           map_of sec ''rain'' = None \<or> map_of sec ''speed'' = None) \<longrightarrow>
        (\<exists>v q w'. init cfg path self0 w = (Inl (UnitError (unknown_units_msg v q path)), w'))"
    using init_missing_key by blast
  have rendering: "\<forall>q. unknown_units_msg None q path =
        ''Unknown units '' @ [CHR 0x27] @ ''None'' @ [CHR 0x27] @ '' specified for Cumulus '' @ q
          @ '' fields in '' @ path @ ''.''"
    using unknown_None_text by blast
  have first: "\<forall>sec q. header_keys_ok w \<and> cfg_Units cfg = Some sec \<and>
          first_rejected w sec = Some q \<longrightarrow>
        (\<exists>w'. init cfg path self0 w =
           (Inl (UnitError (unknown_units_msg (map_of sec q) q path)), w'))"
    using init_first_rejected by blast
  from no_units_iff[of cfg path w] present whole first rendering show ?thesis
    by (intro conjI allI impI) blast+
qed

theorem missing_quantity_key_witness:
  "cfg_Units example_config_no_pressure =
     Some [(''temperature'', ''degree_C''), (''rain'', ''mm''), (''speed'', ''km_per_hour'')] \<and>
   map_of [(''temperature'', ''degree_C''), (''rain'', ''mm''), (''speed'', ''km_per_hour'')]
     ''pressure'' = None \<and>
   header_keys_ok example_world \<and>
   first_rejected example_world
     [(''temperature'', ''degree_C''), (''rain'', ''mm''), (''speed'', ''km_per_hour'')]
     = Some ''pressure'' \<and>
   units_temperature example_config_no_pressure ''import.conf'' example_world =
     (None, example_world\<lparr>header_map :=
        with_units temperature_fields ''degree_C'' (header_map example_world)\<rparr>) \<and>
   init example_config_no_pressure ''import.conf'' example_self example_world =
     (Inl (UnitError (''Unknown units '' @ [CHR 0x27] @ ''None'' @ [CHR 0x27]
             @ '' specified for Cumulus pressure fields in import.conf.'')),
      example_world\<lparr>header_map :=
        with_units temperature_fields ''degree_C'' (header_map example_world)\<rparr>)"
proof -
  have s: "cfg_Units example_config_no_pressure =
     Some [(''temperature'', ''degree_C''), (''rain'', ''mm''), (''speed'', ''km_per_hour'')]"
    by (simp add: example_config_no_pressure_def)
  have t: "units_temperature example_config_no_pressure ''import.conf'' example_world =
     (None, example_world\<lparr>header_map :=
        with_units temperature_fields ''degree_C'' (header_map example_world)\<rparr>)"
    by (rule units_temperature_valid[OF example_world_keys_ok s])
      (simp_all add: example_world_def)
  have f: "first_rejected example_world
     [(''temperature'', ''degree_C''), (''rain'', ''mm''), (''speed'', ''km_per_hour'')]
     = Some ''pressure''"
    by (simp add: first_rejected_def unit_allowed_def example_world_def rain_units_dict_def)
  show ?thesis
    using s t f example_world_keys_ok
      missing_quantity_key[where cfg = example_config_no_pressure and path = "''import.conf''"
        and w = example_world and ?self0.0 = example_self]
    by simp
qed

text \<open>
  Claim C10 as it was stated fails for a quantity whose block is not reached. With the
  temperature unit \<^verbatim>\<open>kelvin\<close>, which the table of units does not have, and no key for
  the pressure, the constructor stops in the temperature block: its error names
  \<^verbatim>\<open>'kelvin'\<close> and the temperature, not \<^verbatim>\<open>'None'\<close> and the pressure.
\<close>

theorem missing_quantity_key_counterexample:
  "cfg_Units example_config_kelvin =
     Some [(''temperature'', ''kelvin''), (''rain'', ''mm''), (''speed'', ''km_per_hour'')] \<and>
   map_of [(''temperature'', ''kelvin''), (''rain'', ''mm''), (''speed'', ''km_per_hour'')]
     ''pressure'' = None \<and>
   init example_config_kelvin ''import.conf'' example_self example_world =
     (Inl (UnitError (''Unknown units '' @ [CHR 0x27] @ ''kelvin'' @ [CHR 0x27]
             @ '' specified for Cumulus temperature fields in import.conf.'')), example_world) \<and>
   ''Unknown units '' @ [CHR 0x27] @ ''kelvin'' @ [CHR 0x27]
       @ '' specified for Cumulus temperature fields in import.conf.''
     \<noteq> ''Unknown units '' @ [CHR 0x27] @ ''None'' @ [CHR 0x27]
       @ '' specified for Cumulus pressure fields in import.conf.''"
proof -
  have s: "cfg_Units example_config_kelvin =
     Some [(''temperature'', ''kelvin''), (''rain'', ''mm''), (''speed'', ''km_per_hour'')]"
    by (simp add: example_config_kelvin_def)
  have t: "units_temperature example_config_kelvin ''import.conf'' example_world =
      (Some (UnitError (unknown_units_msg (Some ''kelvin'') ''temperature'' ''import.conf'')),
       example_world)"
    by (rule units_invalid(1)[OF s]) (simp_all add: example_world_def)
  from init_units_error[OF resolve_units_first[OF t], of example_self] s
  show ?thesis
    by (simp add: unknown_units_msg_def squote_def py_str_def)
qed

lemma example_resolve_units:
  "resolve_units example_config ''import.conf'' example_world = (None, example_world_units)"
  unfolding resolve_units_None example_world_units_def
  using example_world_keys_ok
  by (simp add: example_config_def example_world_def rain_units_dict_def)

lemma example_resolve_units_empty_dir:
  "resolve_units example_config_empty_dir ''import.conf'' example_world = (None, example_world_units)"
  unfolding resolve_units_None example_world_units_def
  using example_world_keys_ok
  by (simp add: example_config_empty_dir_def example_world_def rain_units_dict_def)

lemma example_glob:
  "glob example_world (log_pattern ''/logs'') = [''/logs/Jan16log.txt'', ''/logs/Dec15log.txt'']"
  "glob example_world (log_pattern ''/empty'') = []"
  by (simp_all add: example_world_def log_pattern_def)

lemma example_keys:
  "log_key ''/logs/Jan16log.txt'' = (''16'', 1)"
  "log_key ''/logs/Dec15log.txt'' = (''15'', 12)"
  "month_ok ''/logs/Jan16log.txt''"
  "month_ok ''/logs/Dec15log.txt''"
  by (simp_all add: log_key_def month_ok_def slice_from_end_def strptime_b_def str_lower_def
      month_table_def)

lemma example_sort:
  "sort_key log_key [''/logs/Jan16log.txt'', ''/logs/Dec15log.txt''] =
     [''/logs/Dec15log.txt'', ''/logs/Jan16log.txt'']"
  by (simp add: example_keys)

lemma example_init:
  "init example_config ''import.conf'' example_self example_world =
     (Inr example_instance, example_world_units)"
proof -
  have d: "cfg_directory example_config = Some ''/logs''"
    by (simp add: example_config_def)
  have k: "month_keys [''/logs/Jan16log.txt'', ''/logs/Dec15log.txt''] =
      Inr (map key_triple [''/logs/Jan16log.txt'', ''/logs/Dec15log.txt''])"
    by (simp only: month_keys_Inr) (simp add: example_keys)
  have c: "cfg_decimal example_config = None" "cfg_delimiter example_config = None"
    by (simp_all add: example_config_def)
  have sl: "sorted_logs [key_triple ''/logs/Jan16log.txt'', key_triple ''/logs/Dec15log.txt''] =
      [''/logs/Dec15log.txt'', ''/logs/Jan16log.txt'']"
  proof -
    have "sorted_logs (map key_triple [''/logs/Jan16log.txt'', ''/logs/Dec15log.txt'']) =
        [''/logs/Dec15log.txt'', ''/logs/Jan16log.txt'']"
      by (simp only: sorted_logs_eq example_sort)
    then show ?thesis by simp
  qed
  show ?thesis
    unfolding init_reached[OF example_resolve_units d] example_glob k
    by (simp add: sl c example_self_def example_instance_def)
qed

lemma units_written_rain:
  assumes "hm ''midnight_rain'' \<noteq> None" "hm ''cur_rain_rate'' \<noteq> None"
  shows "unit_of (units_written t p r rate s hm) ''midnight_rain'' = Some r"
    and "unit_of (units_written t p r rate s hm) ''cur_rain_rate'' = Some rate"
  using assms
  by (auto simp: units_written_def unit_of_def with_units_def speed_fields_def
      temperature_fields_def)

lemma init_world_frame:
  "init cfg path self0 w = (r, w') \<Longrightarrow> \<exists>hm. w' = w\<lparr>header_map := hm\<rparr>"
proof -
  assume i: "init cfg path self0 w = (r, w')"
  obtain r1 w1 where r1: "resolve_units cfg path w = (r1, w1)"
    by (cases "resolve_units cfg path w")
  have "w' = w1"
    using i r1 by (auto simp: init_def Let_def split: option.splits sum.splits if_splits)
  with resolve_units_frame[OF r1] show ?thesis by simp
qed

section \<open>Rain and rain-rate units\<close>

text \<open>
  Claim C6. The rain block accepts the keys of \<^verbatim>\<open>rain_units_dict\<close>, that is
  \<^verbatim>\<open>'inch'\<close> and \<^verbatim>\<open>'mm'\<close>. For an accepted unit it writes the declared unit to
  \<^verbatim>\<open>midnight_rain\<close> and the unit the dictionary gives for it to \<^verbatim>\<open>cur_rain_rate\<close>.
  The speed block, which runs afterwards, and the rest of the constructor leave both
  entries alone: whenever the constructor returns an instance, the field table that
  instance reads holds the declared rain unit and its per-hour unit.
\<close>

theorem rain_rate_units:
  "(\<forall>sec rain_u. header_keys_ok w \<and> cfg_Units cfg = Some sec \<and>
        map_of sec ''rain'' = Some rain_u \<and> rain_u \<in> set (map fst rain_units_dict) \<longrightarrow>
      (\<exists>rate_u w1. map_of rain_units_dict rain_u = Some rate_u \<and>
         units_rain cfg path w = (None, w1) \<and>
         unit_of (header_map w1) ''midnight_rain'' = Some rain_u \<and>
         unit_of (header_map w1) ''cur_rain_rate'' = Some rate_u)) \<and>
   (\<forall>self w'. init cfg path self0 w = (Inr self, w') \<longrightarrow>
      (\<exists>sec rain_u rate_u. cfg_Units cfg = Some sec \<and> map_of sec ''rain'' = Some rain_u \<and>
         map_of rain_units_dict rain_u = Some rate_u \<and>
         unit_of (instance_header_map self w') ''midnight_rain'' = Some rain_u \<and>
         unit_of (instance_header_map self w') ''cur_rain_rate'' = Some rate_u)) \<and>
   rain_units_dict = [(''inch'', ''inch_per_hour''), (''mm'', ''mm_per_hour'')]"
proof (intro conjI allI impI)
  fix sec rain_u
  assume a: "header_keys_ok w \<and> cfg_Units cfg = Some sec \<and>
        map_of sec ''rain'' = Some rain_u \<and> rain_u \<in> set (map fst rain_units_dict)"
  then obtain rate_u where rate: "map_of rain_units_dict rain_u = Some rate_u"
    by (cases "map_of rain_units_dict rain_u") (auto simp: map_of_eq_None_iff)
  from a have keys: "header_keys_ok w" and sec: "cfg_Units cfg = Some sec"
    and ru: "map_of sec ''rain'' = Some rain_u" by simp_all
  note k = keys_ok_parts[OF keys]
  let ?hm = "with_units [''cur_rain_rate''] rate_u (with_units [''midnight_rain''] rain_u (header_map w))"
  have "unit_of ?hm ''midnight_rain'' = Some rain_u" "unit_of ?hm ''cur_rain_rate'' = Some rate_u"
    using k(3,4) by (simp_all add: unit_of_with_units unit_of_with_units_other)
  with units_rain_valid[OF keys sec ru rate, of path] rate
  show "\<exists>rate_u w1. map_of rain_units_dict rain_u = Some rate_u \<and>
         units_rain cfg path w = (None, w1) \<and>
         unit_of (header_map w1) ''midnight_rain'' = Some rain_u \<and>
         unit_of (header_map w1) ''cur_rain_rate'' = Some rate_u"
    by auto
next
  fix self w'
  assume i: "init cfg path self0 w = (Inr self, w')"
  from init_Inr[OF i] have r: "resolve_units cfg path w = (None, w')" by blast
  then obtain sec temp_u press_u rain_u rate_u speed_u where
    v: "cfg_Units cfg = Some sec" "map_of sec ''rain'' = Some rain_u"
       "map_of rain_units_dict rain_u = Some rate_u" "header_keys_ok w"
       "w' = w\<lparr>header_map := units_written temp_u press_u rain_u rate_u speed_u (header_map w)\<rparr>"
    unfolding resolve_units_None by blast
  note k = keys_ok_parts[OF v(4)]
  from units_written_rain[OF k(3) k(4)] v
  show "\<exists>sec rain_u rate_u. cfg_Units cfg = Some sec \<and> map_of sec ''rain'' = Some rain_u \<and>
         map_of rain_units_dict rain_u = Some rate_u \<and>
         unit_of (instance_header_map self w') ''midnight_rain'' = Some rain_u \<and>
         unit_of (instance_header_map self w') ''cur_rain_rate'' = Some rate_u"
    by (auto simp: instance_header_map_def)
next
  show "rain_units_dict = [(''inch'', ''inch_per_hour''), (''mm'', ''mm_per_hour'')]"
    by (simp add: rain_units_dict_def)
qed

theorem rain_rate_units_witness:
  "init example_config ''import.conf'' example_self example_world =
     (Inr example_instance, example_world_units) \<and>
   cfg_Units example_config =
     Some [(''temperature'', ''degree_C''), (''pressure'', ''hPa''),
           (''rain'', ''mm''), (''speed'', ''km_per_hour'')] \<and>
   unit_of (instance_header_map example_instance example_world_units) ''midnight_rain'' = Some ''mm'' \<and>
   unit_of (instance_header_map example_instance example_world_units) ''cur_rain_rate''
     = Some ''mm_per_hour''"
proof -
  have s: "cfg_Units example_config =
     Some [(''temperature'', ''degree_C''), (''pressure'', ''hPa''),
           (''rain'', ''mm''), (''speed'', ''km_per_hour'')]"
    by (simp add: example_config_def)
  from rain_rate_units[where cfg = example_config and path = "''import.conf''"
      and ?self0.0 = example_self and w = example_world] example_init
  have "\<exists>sec rain_u rate_u. cfg_Units example_config = Some sec \<and>
      map_of sec ''rain'' = Some rain_u \<and> map_of rain_units_dict rain_u = Some rate_u \<and>
      unit_of (instance_header_map example_instance example_world_units) ''midnight_rain''
        = Some rain_u \<and>
      unit_of (instance_header_map example_instance example_world_units) ''cur_rain_rate''
        = Some rate_u"
    by blast
  with s example_init show ?thesis by (auto simp: rain_units_dict_def)
qed

section \<open>A directory without monthly logs\<close>

text \<open>
  Claim C7. When the configured directory is \<open>dir\<close> and \<^verbatim>\<open>glob\<close> finds no file for
  \<^verbatim>\<open>dir/?????log.txt\<close>, the constructor never returns an instance. Once unit resolution
  has passed, so that the constructor gets as far as listing the directory, the error is
  the WeeImportIOError whose message quotes \<open>dir\<close>. The constructor opens no file, in
  this case or in any other: the only \<^verbatim>\<open>open\<close> of the class is in \<^verbatim>\<open>getRawData\<close>.
\<close>

theorem no_monthly_logs:
  assumes d: "cfg_directory cfg = Some dir" and g: "glob w (log_pattern dir) = []"
  shows
    "(\<forall>w1. resolve_units cfg path w = (None, w1) \<longrightarrow>
        init cfg path self0 w =
          (Inl (WeeImportIOError
             (''No Cumulus monthly logs found in directory '' @ squote dir @ ''.'')), w1)) \<and>
     sublist dir (''No Cumulus monthly logs found in directory '' @ squote dir @ ''.'') \<and>
     (\<forall>r w'. init cfg path self0 w = (r, w') \<longrightarrow>
        (\<exists>e. r = Inl e) \<and> opened w' = opened w \<and> files w' = files w)"
proof (intro conjI allI impI)
  fix w1
  assume r: "resolve_units cfg path w = (None, w1)"
  show "init cfg path self0 w =
          (Inl (WeeImportIOError
             (''No Cumulus monthly logs found in directory '' @ squote dir @ ''.'')), w1)"
    unfolding init_reached[OF r d] g by (simp add: sorted_logs_def)
next
  have "sublist dir ((''No Cumulus monthly logs found in directory '' @ [CHR 0x27]) @ dir
      @ ([CHR 0x27] @ ''.''))"
    by (rule sublist_appendI)
  then show "sublist dir (''No Cumulus monthly logs found in directory '' @ squote dir @ ''.'')"
    by (simp add: squote_def)
next
  fix r w'
  assume i: "init cfg path self0 w = (r, w')"
  show "\<exists>e. r = Inl e"
  proof (cases r)
    case (Inl e)
    then show ?thesis by blast
  next
    case (Inr self)
    from init_Inr[OF i[unfolded Inr]] d g show ?thesis by auto
  qed
  from init_world_frame[OF i] obtain hm where "w' = w\<lparr>header_map := hm\<rparr>" ..
  then show "opened w' = opened w" "files w' = files w" by simp_all
qed

theorem no_monthly_logs_witness:
  "cfg_directory example_config_empty_dir = Some ''/empty'' \<and>
   glob example_world (log_pattern ''/empty'') = [] \<and>
   resolve_units example_config_empty_dir ''import.conf'' example_world
     = (None, example_world_units) \<and>
   init example_config_empty_dir ''import.conf'' example_self example_world =
     (Inl (WeeImportIOError
        (''No Cumulus monthly logs found in directory '' @ [CHR 0x27] @ ''/empty'' @ [CHR 0x27]
           @ ''.'')), example_world_units) \<and>
   opened example_world_units = opened example_world"
proof -
  have d: "cfg_directory example_config_empty_dir = Some ''/empty''"
    by (simp add: example_config_empty_dir_def)
  from no_monthly_logs[OF d example_glob(2), of "''import.conf''" example_self]
    example_resolve_units_empty_dir d example_glob(2)
  show ?thesis by (simp add: squote_def)
qed

lemma resolve_units_glob:
  assumes "resolve_units cfg path w = (None, w')"
  shows "resolve_units cfg path (w\<lparr>glob := g\<rparr>) = (None, w'\<lparr>glob := g\<rparr>)"
proof -
  from assms obtain sec temp_u press_u rain_u rate_u speed_u where
    v: "cfg_Units cfg = Some sec"
       "map_of sec ''temperature'' = Some temp_u" "temp_u \<in> default_unit_format_dict w"
       "map_of sec ''pressure'' = Some press_u" "press_u \<in> {''inHg'', ''mbar'', ''hPa''}"
       "map_of sec ''rain'' = Some rain_u" "map_of rain_units_dict rain_u = Some rate_u"
       "map_of sec ''speed'' = Some speed_u" "speed_u \<in> default_unit_format_dict w"
       "header_keys_ok w"
       "w' = w\<lparr>header_map := units_written temp_u press_u rain_u rate_u speed_u (header_map w)\<rparr>"
    unfolding resolve_units_None by blast
  have k: "header_keys_ok (w\<lparr>glob := g\<rparr>)"
    using v(10) by (simp add: header_keys_ok_def)
  show ?thesis
    unfolding resolve_units_None
    using v(1-9) k by (auto simp: v(11))
qed

section \<open>The catalogue of monthly logs\<close>

lemma month_table_number:
  "map_of month_table x =
     (if index_from 1 x month_names = 0 then None else Some (index_from 1 x month_names))"
  by (simp add: month_table_def month_names_def)

lemma strptime_b_number:
  "strptime_b s = (if month_number s = 0 then None else Some (month_number s))"
  by (simp only: strptime_b_def month_number_def month_table_number)

lemma log_key_month: "log_key fn = month_sort_key fn"
  by (simp add: log_key_def month_sort_key_def strptime_b_number)

lemma month_ok_has_month: "month_ok fn = has_month fn"
  by (simp add: month_ok_def has_month_def strptime_b_number)

lemma month_number_range: "month_number s \<le> 12"
  by (simp add: month_number_def month_names_def)

lemma log_key_fun: "log_key = month_sort_key"
  by (rule ext) (rule log_key_month)

lemma month_ok_fun: "month_ok = has_month"
  by (rule ext) (rule month_ok_has_month)

lemma catalogue_sorted_by_log_key:
  assumes r: "resolve_units cfg path w = (None, w')"
    and d: "cfg_directory cfg = Some dir"
    and g: "glob w (log_pattern dir) = fns"
    and n: "fns \<noteq> []"
    and m: "list_all month_ok fns"
  shows "\<exists>self. init cfg path self0 w = (Inr self, w') \<and>
           log_list self = sort_key log_key fns \<and>
           mset (log_list self) = mset fns \<and>
           length (log_list self) = length fns \<and>
           sorted (map log_key (log_list self)) \<and>
           (\<forall>fns'. mset fns' = mset fns \<and> inj_on log_key (set fns) \<longrightarrow>
              (\<exists>self2 w2.
                 init cfg path self0 (w\<lparr>glob := (glob w)(log_pattern dir := fns')\<rparr>)
                   = (Inr self2, w2) \<and>
                 log_list self2 = log_list self))"
proof -
  from init_catalogue[OF r d, of self0] g n m obtain self where
    i: "init cfg path self0 w = (Inr self, w')" and l: "log_list self = sort_key log_key fns"
    by auto
  have other: "\<exists>self2 w2.
      init cfg path self0 (w\<lparr>glob := (glob w)(log_pattern dir := fns')\<rparr>) = (Inr self2, w2) \<and>
      log_list self2 = log_list self"
    if p: "mset fns' = mset fns" and inj: "inj_on log_key (set fns)" for fns'
  proof -
    let ?w = "w\<lparr>glob := (glob w)(log_pattern dir := fns')\<rparr>"
    have s: "set fns' = set fns" using p by (metis set_mset_mset)
    have g': "glob ?w (log_pattern dir) = fns'" by simp
    have n': "glob ?w (log_pattern dir) \<noteq> []" using p n by auto
    have m': "list_all month_ok (glob ?w (log_pattern dir))"
      using m s by (simp add: list_all_iff)
    from init_catalogue[OF resolve_units_glob[OF r] d m' n', of self0] obtain self2 where
      i2: "init cfg path self0 ?w = (Inr self2, w'\<lparr>glob := (glob w)(log_pattern dir := fns')\<rparr>)"
      and l2: "log_list self2 = sort_key log_key fns'"
      by auto
    have "sort_key log_key fns' = sort_key log_key fns"
      by (rule sort_key_inj_key_eq) (simp_all add: p s inj)
    with i2 l2 l show ?thesis by auto
  qed
  from i l other show ?thesis by auto
qed

lemma example_months_resolve:
  "resolve_units example_config ''import.conf'' example_world_months =
     (None, example_world_units\<lparr>glob := glob example_world_months\<rparr>)"
  using resolve_units_glob[OF example_resolve_units, of "glob example_world_months"]
  by (simp add: example_world_months_def)

lemma example_months_glob:
  "glob example_world_months (log_pattern ''/logs'') =
     [''/logs/Apr15log.txt'', ''/logs/Jan16log.txt'', ''/logs/Jan15log.txt'',
      ''/logs/Dec15log.txt'']"
  by (simp add: example_world_months_def log_pattern_def)

lemma example_months_keys:
  "month_sort_key ''/logs/Apr15log.txt'' = (''15'', 4)"
  "month_sort_key ''/logs/Jan16log.txt'' = (''16'', 1)"
  "month_sort_key ''/logs/Jan15log.txt'' = (''15'', 1)"
  "month_sort_key ''/logs/Dec15log.txt'' = (''15'', 12)"
  by (simp_all add: month_sort_key_def slice_from_end_def month_number_def month_names_def
      str_lower_def)

text \<open>
  Claim C3, as amended. Let unit resolution pass and the directory be configured, and let
  \<^verbatim>\<open>glob\<close> return the files \<open>fns\<close> for the pattern \<^verbatim>\<open>?????log.txt\<close>, in whatever order,
  every one of them with a three-letter month abbreviation in front of the year (a name
  such as \<^verbatim>\<open>Jan16log.txt\<close>). Then the constructor returns an instance whose
  \<^verbatim>\<open>log_list\<close> holds exactly the files of \<open>fns\<close>, each as often as \<open>fns\<close> does, in
  ascending order of the two-part key: first the two characters \<^verbatim>\<open>fn[-9:-7]\<close> of the year,
  then the number, from 1 to 12, of the month that \<^verbatim>\<open>fn[-12:-9]\<close> abbreviates. This holds
  for every order of the listing. Where no two files have the same key, the list itself
  is the same for every order of the listing.
\<close>

theorem catalogue_sorted:
  assumes r: "resolve_units cfg path w = (None, w')"
    and d: "cfg_directory cfg = Some dir"
    and g: "glob w (log_pattern dir) = fns"
    and n: "fns \<noteq> []"
    and m: "list_all has_month fns"
  shows "(\<exists>self. init cfg path self0 w = (Inr self, w') \<and>
           mset (log_list self) = mset fns \<and>
           length (log_list self) = length fns \<and>
           sorted (map month_sort_key (log_list self)) \<and>
           (\<forall>fns'. mset fns' = mset fns \<and> inj_on month_sort_key (set fns) \<longrightarrow>
              (\<exists>self2 w2.
                 init cfg path self0 (w\<lparr>glob := (glob w)(log_pattern dir := fns')\<rparr>)
                   = (Inr self2, w2) \<and>
                 log_list self2 = log_list self))) \<and>
         map month_number [''Jan'', ''Feb'', ''Mar'', ''Apr'', ''May'', ''Jun'',
                           ''Jul'', ''Aug'', ''Sep'', ''Oct'', ''Nov'', ''Dec'']
           = [1, 2, 3, 4, 5, 6, 7, 8, 9, 10, 11, 12]"
proof
  from catalogue_sorted_by_log_key[OF r d g n m[folded month_ok_fun], of self0]
  show "\<exists>self. init cfg path self0 w = (Inr self, w') \<and>
           mset (log_list self) = mset fns \<and>
           length (log_list self) = length fns \<and>
           sorted (map month_sort_key (log_list self)) \<and>
           (\<forall>fns'. mset fns' = mset fns \<and> inj_on month_sort_key (set fns) \<longrightarrow>
              (\<exists>self2 w2.
                 init cfg path self0 (w\<lparr>glob := (glob w)(log_pattern dir := fns')\<rparr>)
                   = (Inr self2, w2) \<and>
                 log_list self2 = log_list self))"
    unfolding log_key_fun by blast
  show "map month_number [''Jan'', ''Feb'', ''Mar'', ''Apr'', ''May'', ''Jun'',
                           ''Jul'', ''Aug'', ''Sep'', ''Oct'', ''Nov'', ''Dec'']
           = [1, 2, 3, 4, 5, 6, 7, 8, 9, 10, 11, 12]"
    by (simp add: month_number_def month_names_def str_lower_def)
qed

theorem catalogue_sorted_witness:
  "resolve_units example_config ''import.conf'' example_world_months =
     (None, example_world_units\<lparr>glob := glob example_world_months\<rparr>) \<and>
   cfg_directory example_config = Some ''/logs'' \<and>
   glob example_world_months (log_pattern ''/logs'') =
     [''/logs/Apr15log.txt'', ''/logs/Jan16log.txt'', ''/logs/Jan15log.txt'',
      ''/logs/Dec15log.txt''] \<and>
   list_all has_month [''/logs/Apr15log.txt'', ''/logs/Jan16log.txt'', ''/logs/Jan15log.txt'',
      ''/logs/Dec15log.txt''] \<and>
   (\<exists>self. init example_config ''import.conf'' example_self example_world_months =
             (Inr self, example_world_units\<lparr>glob := glob example_world_months\<rparr>) \<and>
           sorted (map month_sort_key (log_list self)) \<and>
           log_list self =
             [''/logs/Jan15log.txt'', ''/logs/Apr15log.txt'', ''/logs/Dec15log.txt'',
              ''/logs/Jan16log.txt''])"
proof -
  let ?fns = "[''/logs/Apr15log.txt'', ''/logs/Jan16log.txt'', ''/logs/Jan15log.txt'',
      ''/logs/Dec15log.txt'']"
  have d: "cfg_directory example_config = Some ''/logs''"
    by (simp add: example_config_def)
  have n: "?fns \<noteq> []" by simp
  have m: "list_all has_month ?fns"
    using example_months_keys by (simp add: has_month_def month_sort_key_def)
  from catalogue_sorted[OF example_months_resolve d example_months_glob n m, of example_self]
  obtain self where
    i: "init example_config ''import.conf'' example_self example_world_months =
          (Inr self, example_world_units\<lparr>glob := glob example_world_months\<rparr>)"
    and s: "sorted (map month_sort_key (log_list self))"
    by blast
  from init_Inr[OF i] d example_months_glob
  have "log_list self = sort_key log_key ?fns" by auto
  then have l: "log_list self =
      [''/logs/Jan15log.txt'', ''/logs/Apr15log.txt'', ''/logs/Dec15log.txt'',
       ''/logs/Jan16log.txt'']"
    unfolding log_key_fun by (simp add: example_months_keys)
  from example_months_resolve d example_months_glob m i s l show ?thesis by blast
qed

text \<open>
  Claim C3 as it was stated fails on a file that matches the pattern without being a
  monthly log: \<^verbatim>\<open>dailylog.txt\<close> is five characters and \<^verbatim>\<open>log.txt\<close>, its first three
  characters are no month, and the constructor ends with the ValueError of
  \<^verbatim>\<open>time.strptime\<close> instead of a catalogue of the two files.
\<close>

theorem catalogue_counterexample:
  "glob example_world_daily (log_pattern ''/logs'') =
     [''/logs/Jan16log.txt'', ''/logs/dailylog.txt''] \<and>
   init example_config ''import.conf'' example_self example_world_daily =
     (Inl (ValueError ''dai''), example_world_units\<lparr>glob := glob example_world_daily\<rparr>)"
proof -
  have g: "glob example_world_daily (log_pattern ''/logs'') =
     [''/logs/Jan16log.txt'', ''/logs/dailylog.txt'']"
    by (simp add: example_world_daily_def log_pattern_def)
  have r: "resolve_units example_config ''import.conf'' example_world_daily =
     (None, example_world_units\<lparr>glob := glob example_world_daily\<rparr>)"
    using resolve_units_glob[OF example_resolve_units, of "glob example_world_daily"]
    by (simp add: example_world_daily_def)
  have d: "cfg_directory example_config = Some ''/logs''"
    by (simp add: example_config_def)
  have k: "month_keys [''/logs/Jan16log.txt'', ''/logs/dailylog.txt''] = Inl (ValueError ''dai'')"
    by (simp add: slice_from_end_def strptime_b_def str_lower_def month_table_def)
  show ?thesis
    unfolding init_reached[OF r d] g k by simp
qed

section \<open>The period generator\<close>

declare period_generator.simps [simp del]

lemma period_generator_from:
  "period_generator i self =
     map (\<lambda>j. (log_list self ! j, log_list self ! j = log_list self ! 0,
               log_list self ! j = last (log_list self)))
       [i..<length (log_list self)]"
proof (induction i self rule: period_generator.induct)
  case (1 i self)
  show ?case
  proof (cases "i < length (log_list self)")
    case False
    then show ?thesis
      by (subst period_generator.simps) (simp add: period_generator_next_def)
  next
    case True
    let ?self' = "self\<lparr>first_period := (log_list self ! i = log_list self ! 0),
          last_period := (log_list self ! i = last (log_list self))\<rparr>"
    have nx: "period_generator_next i self = Some (log_list self ! i, Suc i, ?self')"
      using True by (simp add: period_generator_next_def Let_def)
    have ih: "period_generator (Suc i) ?self' =
        map (\<lambda>j. (log_list self ! j, log_list self ! j = log_list self ! 0,
                  log_list self ! j = last (log_list self)))
          [Suc i..<length (log_list self)]"
      using "1.IH"[OF nx refl refl] by simp
    show ?thesis
      by (subst period_generator.simps) (simp add: nx ih upt_conv_Cons[OF True])
  qed
qed

text \<open>
  Claim C8. Iterating the generator to exhaustion over a non-empty catalogue yields the
  files of the catalogue in order. At each yield \<^verbatim>\<open>first_period\<close> says whether the
  file yielded is the first file of the catalogue and \<^verbatim>\<open>last_period\<close> whether it is the
  last one. The catalogue lists distinct paths, so the first flag is true at the first
  yield and at no other, and the last flag at the last yield and at no other; a catalogue
  of one file has one yield with both flags true.
\<close>

theorem period_generator_flags:
  assumes "log_list self \<noteq> []"
  shows "map fst (period_generator 0 self) = log_list self \<and>
         period_generator 0 self =
           map (\<lambda>month. (month, month = hd (log_list self), month = last (log_list self)))
             (log_list self) \<and>
         (distinct (log_list self) \<longrightarrow>
            period_generator 0 self =
              map (\<lambda>j. (log_list self ! j, j = 0, Suc j = length (log_list self)))
                [0..<length (log_list self)]) \<and>
         (\<forall>f. log_list self = [f] \<longrightarrow> period_generator 0 self = [(f, True, True)])"
proof -
  let ?l = "log_list self"
  have hd0: "?l ! 0 = hd ?l" using assms by (simp add: hd_conv_nth)
  have a: "period_generator 0 self = map (\<lambda>month. (month, month = hd ?l, month = last ?l)) ?l"
    unfolding period_generator_from hd0
    by (rule nth_equalityI) simp_all
  have b: "map fst (period_generator 0 self) = ?l"
    unfolding a by (simp add: o_def)
  have c: "period_generator 0 self = map (\<lambda>j. (?l ! j, j = 0, Suc j = length ?l)) [0..<length ?l]"
    if dist: "distinct ?l"
  proof -
    have "(?l ! j = ?l ! 0) = (j = 0) \<and> (?l ! j = last ?l) = (Suc j = length ?l)"
      if "j < length ?l" for j
      using that dist assms
      by (auto simp: last_conv_nth nth_eq_iff_index_eq)
    then show ?thesis
      unfolding period_generator_from by (intro map_cong refl) auto
  qed
  have e: "period_generator 0 self = [(f, True, True)]" if "?l = [f]" for f
    unfolding a using that by simp
  from a b c e show ?thesis by blast
qed

theorem period_generator_flags_witness:
  "log_list example_instance \<noteq> [] \<and> distinct (log_list example_instance) \<and>
   period_generator 0 example_instance =
     [(''/logs/Dec15log.txt'', True, False), (''/logs/Jan16log.txt'', False, True)] \<and>
   period_generator 0 (example_instance\<lparr>log_list := [''/logs/Dec15log.txt'']\<rparr>) =
     [(''/logs/Dec15log.txt'', True, True)]"
proof -
  have l: "log_list example_instance = [''/logs/Dec15log.txt'', ''/logs/Jan16log.txt'']"
    by (simp add: example_instance_def)
  have n: "log_list example_instance \<noteq> []" by (simp add: l)
  have n1: "log_list (example_instance\<lparr>log_list := [''/logs/Dec15log.txt'']\<rparr>) \<noteq> []" by simp
  from period_generator_flags[OF n] period_generator_flags[OF n1]
  show ?thesis by (simp add: l)
qed

declare str_replace.simps [simp del]

lemma clean_loop_acc:
  "clean_loop dec del acc raw =
     acc @ map (str_replace1 del '' '')
             (filter (\<lambda>line. line \<noteq> newline) (map (str_replace dec ''.'') raw))"
  by (induction raw arbitrary: acc) (simp_all add: Let_def)

lemma getRawData_ok:
  assumes "files w period = Some raw" "length (delimiter self) = 1"
  shows "getRawData parseMap period self w =
     (Inr (\<lparr>rd_lines = clean_loop (decimal self) (delimiter self) [] raw,
            rd_fieldnames = field_list, rd_delimiter = delimiter self\<rparr>,
           self\<lparr>map_field := Some (parseMap (header_map w) ''Cumulus''
                    \<lparr>rd_lines = clean_loop (decimal self) (delimiter self) [] raw,
                     rd_fieldnames = field_list, rd_delimiter = delimiter self\<rparr>
                    (cumulus_config_dict self)),
                map_builds := Suc (map_builds self)\<rparr>),
      w\<lparr>opened := opened w @ [period]\<rparr>)"
  using assms by (simp add: getRawData_def Let_def)

section \<open>Blank lines\<close>

text \<open>
  Claim C4. \<^verbatim>\<open>getRawData\<close> replaces the decimal separator in every line it has read.
  A line that is then empty, that is, nothing but its line end \<^verbatim>\<open>"\n"\<close>, adds nothing
  to \<^verbatim>\<open>_clean_data\<close>. Every other line adds exactly one entry, the line with its date
  and time joined, and the entries keep the order of the file. \<^verbatim>\<open>_clean_data\<close> is what
  the row parser \<^verbatim>\<open>csv.DictReader\<close> is given.
\<close>

theorem blank_lines_dropped:
  "clean_loop dec del [] raw =
     map (str_replace1 del '' '')
       (filter (\<lambda>line. line \<noteq> newline) (map (str_replace dec ''.'') raw)) \<and>
   clean_loop dec del [] (rows @ [row]) =
     (if str_replace dec ''.'' row = newline then clean_loop dec del [] rows
      else clean_loop dec del [] rows @ [str_replace1 del '' '' (str_replace dec ''.'' row)]) \<and>
   (\<forall>period self w. files w period = Some raw \<and> length (delimiter self) = 1 \<longrightarrow>
      (\<exists>reader self' w'.
         getRawData (parseMap :: header_map \<Rightarrow> string \<Rightarrow> dict_reader \<Rightarrow> cumulus_config \<Rightarrow> 'm)
           period self w = (Inr (reader, self'), w') \<and>
         rd_lines reader =
           map (str_replace1 (delimiter self) '' '')
             (filter (\<lambda>line. line \<noteq> newline) (map (str_replace (decimal self) ''.'') raw))))"
proof (intro conjI allI impI)
  show "clean_loop dec del [] raw =
     map (str_replace1 del '' '')
       (filter (\<lambda>line. line \<noteq> newline) (map (str_replace dec ''.'') raw))"
    by (simp add: clean_loop_acc)
  show "clean_loop dec del [] (rows @ [row]) =
     (if str_replace dec ''.'' row = newline then clean_loop dec del [] rows
      else clean_loop dec del [] rows @ [str_replace1 del '' '' (str_replace dec ''.'' row)])"
    by (simp add: clean_loop_acc)
next
  fix period and self :: "'m cumulus_source" and w :: world
  assume a: "files w period = Some raw \<and> length (delimiter self) = 1"
  then have f: "files w period = Some raw" and l: "length (delimiter self) = 1" by simp_all
  show "\<exists>reader self' w'. getRawData parseMap period self w = (Inr (reader, self'), w') \<and>
         rd_lines reader =
           map (str_replace1 (delimiter self) '' '')
             (filter (\<lambda>line. line \<noteq> newline) (map (str_replace (decimal self) ''.'') raw))"
    unfolding getRawData_ok[OF f l] by (simp add: clean_loop_acc)
qed

lemma example_instance_fields:
  "decimal example_instance = ''.''" "delimiter example_instance = '',''"
  "cumulus_config_dict example_instance = example_config"
  "map_field example_instance = None" "map_builds example_instance = 0"
  by (simp_all add: example_instance_def)

lemma example_files:
  "files example_world_units ''/logs/Dec15log.txt'' = Some [''31/12/15,23:50,4.1,80'' @ newline, newline]"
  "files example_world_units ''/logs/Jan16log.txt'' = Some [''01/01/16,00:00,5.2,81'' @ newline]"
  by (simp_all add: example_world_units_def example_world_def)

lemma str_replace_dot: "str_replace ''.'' ''.'' s = s"
  by (induction "''.''" "''.''" s rule: str_replace.induct) (auto simp: str_replace.simps)

lemma example_clean:
  "clean_loop ''.'' '','' [] [''31/12/15,23:50,4.1,80'' @ newline, newline]
     = [''31/12/15 23:50,4.1,80'' @ newline]"
  "clean_loop ''.'' '','' [] [''01/01/16,00:00,5.2,81'' @ newline]
     = [''01/01/16 00:00,5.2,81'' @ newline]"
  by (simp_all add: clean_loop_acc str_replace_dot newline_def)

theorem blank_lines_dropped_witness:
  "files example_world_units ''/logs/Dec15log.txt'' =
     Some [''31/12/15,23:50,4.1,80'' @ newline, newline] \<and>
   length (delimiter example_instance) = 1 \<and>
   (\<exists>reader self' w'.
      getRawData rows_parseMap ''/logs/Dec15log.txt'' example_instance example_world_units
        = (Inr (reader, self'), w') \<and>
      rd_lines reader = [''31/12/15 23:50,4.1,80'' @ newline])"
proof -
  have l: "length (delimiter example_instance) = 1"
    by (simp add: example_instance_fields)
  from blank_lines_dropped[where raw = "[''31/12/15,23:50,4.1,80'' @ newline, newline]"
      and parseMap = rows_parseMap and dec = "''.''" and del = "'',''"]
    example_files(1) l
  have "\<exists>reader self' w'.
      getRawData rows_parseMap ''/logs/Dec15log.txt'' example_instance example_world_units
        = (Inr (reader, self'), w') \<and>
      rd_lines reader = map (str_replace1 (delimiter example_instance) '' '')
             (filter (\<lambda>line. line \<noteq> newline)
                (map (str_replace (decimal example_instance) ''.'')
                   [''31/12/15,23:50,4.1,80'' @ newline, newline]))"
    by blast
  then show ?thesis
    using example_files(1) l
    by (simp add: example_instance_fields str_replace_dot newline_def)
qed

lemma str_replace1_char:
  "str_replace1 [d] new (c # cs) = (if c = d then new @ cs else c # str_replace1 [d] new cs)"
  by simp

lemma str_replace1_absent: "d \<notin> set line \<Longrightarrow> str_replace1 [d] new line = line"
  by (induction line) auto

lemma str_replace1_first:
  "d \<in> set line \<Longrightarrow>
   str_replace1 [d] new line =
     takeWhile (\<lambda>c. c \<noteq> d) line @ new @ tl (dropWhile (\<lambda>c. c \<noteq> d) line)"
  by (induction line) auto

lemma split_char_nonempty: "split_char d s \<noteq> []"
  by (induction s) (auto split: list.splits)

lemma split_char_Cons:
  "split_char d (c # cs) =
     (if c = d then [] # split_char d cs
      else (c # hd (split_char d cs)) # tl (split_char d cs))"
  using split_char_nonempty[of d cs] by (cases "split_char d cs") auto

lemma split_char_length: "length (split_char d s) = Suc (length (filter (\<lambda>c. c = d) s))"
  by (induction s) (simp_all add: split_char_Cons split_char_nonempty del: split_char.simps(2))

lemma split_char_merged:
  assumes "d \<in> set line" "d \<noteq> CHR '' ''"
  shows "split_char d (str_replace1 [d] '' '' line) =
     (hd (split_char d line) @ '' '' @ hd (tl (split_char d line))) # tl (tl (split_char d line))"
  using assms
proof (induction line)
  case Nil
  then show ?case by simp
next
  case (Cons c cs)
  show ?case
  proof (cases "c = d")
    case True
    with Cons.prems(2) show ?thesis
      by (simp add: split_char_Cons split_char_nonempty del: split_char.simps(2))
  next
    case False
    with Cons.prems have "d \<in> set cs" by simp
    from Cons.IH[OF this Cons.prems(2)] False show ?thesis
      by (simp add: split_char_Cons del: split_char.simps(2))
  qed
qed

section \<open>Joining date and time\<close>

text \<open>
  Claim C5, as amended. Take a line as it stands after the decimal separator has been
  replaced, and a delimiter that is one character other than the space. If the delimiter
  occurs in the line, \<^verbatim>\<open>getRawData\<close> replaces its first occurrence by one space and
  keeps the text before and after it: splitting the result at the delimiter gives one
  field fewer than splitting the line, the first two fields of the line joined by the
  space, and the other fields unchanged. If the delimiter does not occur in the line, the
  line is left as it is.
\<close>

theorem first_delimiter_joined:
  assumes d: "d \<noteq> CHR '' ''"
  shows
    "(d \<in> set line \<longrightarrow>
        str_replace1 [d] '' '' line =
          takeWhile (\<lambda>c. c \<noteq> d) line @ '' '' @ tl (dropWhile (\<lambda>c. c \<noteq> d) line) \<and>
        split_char d (str_replace1 [d] '' '' line) =
          (split_char d line ! 0 @ '' '' @ split_char d line ! 1) # drop 2 (split_char d line) \<and>
        Suc (length (split_char d (str_replace1 [d] '' '' line))) = length (split_char d line)) \<and>
     (d \<notin> set line \<longrightarrow> str_replace1 [d] '' '' line = line) \<and>
     (str_replace dec ''.'' row = line \<and> line \<noteq> newline \<longrightarrow>
        clean_loop dec [d] [] [row] = [str_replace1 [d] '' '' line])"
proof (intro conjI impI)
  assume i: "d \<in> set line"
  show "str_replace1 [d] '' '' line =
          takeWhile (\<lambda>c. c \<noteq> d) line @ '' '' @ tl (dropWhile (\<lambda>c. c \<noteq> d) line)"
    by (rule str_replace1_first[OF i])
  have "filter (\<lambda>c. c = d) line \<noteq> []"
    using i by (simp add: filter_empty_conv)
  then have len: "2 \<le> length (split_char d line)"
    by (cases "filter (\<lambda>c. c = d) line") (simp_all add: split_char_length)
  then obtain f0 f1 fs where fs: "split_char d line = f0 # f1 # fs"
    by (cases "split_char d line"; cases "tl (split_char d line)") auto
  show m: "split_char d (str_replace1 [d] '' '' line) =
          (split_char d line ! 0 @ '' '' @ split_char d line ! 1) # drop 2 (split_char d line)"
    unfolding split_char_merged[OF i d] fs by simp
  show "Suc (length (split_char d (str_replace1 [d] '' '' line))) = length (split_char d line)"
    unfolding m using len by simp
next
  assume "d \<notin> set line"
  then show "str_replace1 [d] '' '' line = line"
    by (rule str_replace1_absent)
next
  assume "str_replace dec ''.'' row = line \<and> line \<noteq> newline"
  then show "clean_loop dec [d] [] [row] = [str_replace1 [d] '' '' line]"
    by (simp add: Let_def)
qed

theorem first_delimiter_joined_witness:
  "CHR '','' \<noteq> CHR '' '' \<and> CHR '','' \<in> set ''01/01/16,00:00,5.2,81'' \<and>
   str_replace1 '','' '' '' ''01/01/16,00:00,5.2,81'' = ''01/01/16 00:00,5.2,81'' \<and>
   split_char (CHR '','') ''01/01/16,00:00,5.2,81'' = [''01/01/16'', ''00:00'', ''5.2'', ''81''] \<and>
   split_char (CHR '','') (str_replace1 '','' '' '' ''01/01/16,00:00,5.2,81'')
     = [''01/01/16 00:00'', ''5.2'', ''81'']"
proof -
  have d: "CHR '','' \<noteq> CHR '' ''" by simp
  have s: "split_char (CHR '','') ''01/01/16,00:00,5.2,81'' = [''01/01/16'', ''00:00'', ''5.2'', ''81'']"
    by simp
  from first_delimiter_joined[OF d, of "''01/01/16,00:00,5.2,81''"]
  show ?thesis unfolding s by simp
qed

text \<open>
  Claim C5 as it was stated fails on a line without the delimiter: the line
  \<^verbatim>\<open>"abc\n"\<close> is kept unchanged with the delimiter \<^verbatim>\<open>","\<close>, and it is one field before
  and one field after, not one fewer. The two other conditions of the amended claim are
  needed as well. With the space as delimiter the replacement changes nothing. With
  \<^verbatim>\<open>","\<close> as decimal separator and \<^verbatim>\<open>"."\<close> as delimiter, the line \<^verbatim>\<open>"1,5.2\n"\<close> has
  two fields as it is read and its cleaned form has two as well, because the first
  replacement has made a delimiter of the decimal comma.
\<close>

theorem first_delimiter_counterexample:
  "clean_loop ''.'' '','' [] [''abc'' @ newline] = [''abc'' @ newline] \<and>
   split_char (CHR '','') (''abc'' @ newline) = [''abc'' @ newline] \<and>
   clean_loop ''.'' '' '' [] [''a b'' @ newline] = [''a b'' @ newline] \<and>
   clean_loop '','' ''.'' [] [''1,5.2'' @ newline] = [''1 5.2'' @ newline] \<and>
   split_char (CHR ''.'') (''1,5.2'' @ newline) = [''1,5'', ''2'' @ newline] \<and>
   split_char (CHR ''.'') (''1 5.2'' @ newline) = [''1 5'', ''2'' @ newline]"
  by (simp add: str_replace_dot str_replace.simps newline_def)

lemma import_periods_ok:
  assumes "list_all (\<lambda>p. files w p \<noteq> None) periods" and "length (delimiter self) = 1"
  shows "\<exists>self'. import_periods parseMap periods self w
             = (Inr self', w\<lparr>opened := opened w @ periods\<rparr>) \<and>
           map_builds self' = map_builds self + length periods \<and>
           map_field self' =
             (if periods = [] then map_field self
              else Some (parseMap (header_map w) ''Cumulus''
                     (period_reader self w (last periods)) (cumulus_config_dict self))) \<and>
           decimal self' = decimal self \<and> delimiter self' = delimiter self \<and>
           cumulus_config_dict self' = cumulus_config_dict self"
  using assms
proof (induction periods arbitrary: self w)
  case Nil
  then show ?case by simp
next
  case (Cons period periods)
  from Cons.prems(1) obtain raw where f: "files w period = Some raw" by auto
  let ?rd = "period_reader self w period"
  let ?self1 = "self\<lparr>map_field := Some (parseMap (header_map w) ''Cumulus'' ?rd
                   (cumulus_config_dict self)),
                 map_builds := Suc (map_builds self)\<rparr>"
  let ?w1 = "w\<lparr>opened := opened w @ [period]\<rparr>"
  have g: "getRawData parseMap period self w = (Inr (?rd, ?self1), ?w1)"
    unfolding getRawData_ok[OF f Cons.prems(2)] by (simp add: period_reader_def f)
  have p1: "list_all (\<lambda>p. files ?w1 p \<noteq> None) periods" using Cons.prems(1) by simp
  have d1: "length (delimiter ?self1) = 1" using Cons.prems(2) by simp
  from Cons.IH[OF p1 d1] obtain self' where
    s: "import_periods parseMap periods ?self1 ?w1 = (Inr self', ?w1\<lparr>opened := opened ?w1 @ periods\<rparr>)"
       "map_builds self' = map_builds ?self1 + length periods"
       "map_field self' =
          (if periods = [] then map_field ?self1
           else Some (parseMap (header_map ?w1) ''Cumulus''
                  (period_reader ?self1 ?w1 (last periods)) (cumulus_config_dict ?self1)))"
       "decimal self' = decimal ?self1" "delimiter self' = delimiter ?self1"
       "cumulus_config_dict self' = cumulus_config_dict ?self1"
    by blast
  have rd: "period_reader ?self1 ?w1 p = period_reader self w p" for p
    by (simp add: period_reader_def)
  have "import_periods parseMap (period # periods) self w
      = (Inr self', w\<lparr>opened := opened w @ period # periods\<rparr>)"
    using g s(1) by simp
  moreover have "map_builds self' = map_builds self + length (period # periods)"
    using s(2) by simp
  moreover have "map_field self' =
      Some (parseMap (header_map w) ''Cumulus''
        (period_reader self w (last (period # periods))) (cumulus_config_dict self))"
    using s(3) by (simp add: rd)
  ultimately show ?case using s(4-6) by auto
qed

section \<open>The field map across periods\<close>

text \<open>
  Claim C1, as amended. The constructor sets \<^verbatim>\<open>self.map\<close> to \<^verbatim>\<open>None\<close>. Every call of
  \<^verbatim>\<open>getRawData\<close> that reads its file, for the first period or for a later one, assigns
  \<^verbatim>\<open>self.map\<close> the result of \<^verbatim>\<open>parseMap\<close> on the reader made for that period. Over a
  catalogue of n periods the map is therefore built n times, and after each period it is
  the map built from that period's reader, in place of the one built before.
\<close>

theorem map_rebuilt_each_period:
  assumes "list_all (\<lambda>p. files w p \<noteq> None) periods" and "length (delimiter self) = 1"
  shows "(\<exists>self'. import_periods parseMap periods self w
             = (Inr self', w\<lparr>opened := opened w @ periods\<rparr>) \<and>
           map_builds self' = map_builds self + length periods \<and>
           map_field self' =
             (if periods = [] then map_field self
              else Some (parseMap (header_map w) ''Cumulus''
                     (period_reader self w (last periods)) (cumulus_config_dict self)))) \<and>
         (\<forall>cfg path self0 w0 s (w1 :: world).
            init cfg path self0 w0 = (Inr (s :: 'm cumulus_source), w1) \<longrightarrow>
              map_field s = None \<and> map_builds s = 0)"
proof
  from import_periods_ok[OF assms, of parseMap]
  show "\<exists>self'. import_periods parseMap periods self w
             = (Inr self', w\<lparr>opened := opened w @ periods\<rparr>) \<and>
           map_builds self' = map_builds self + length periods \<and>
           map_field self' =
             (if periods = [] then map_field self
              else Some (parseMap (header_map w) ''Cumulus''
                     (period_reader self w (last periods)) (cumulus_config_dict self)))"
    by blast
  show "\<forall>cfg path self0 w0 s (w1 :: world).
            init cfg path self0 w0 = (Inr (s :: 'm cumulus_source), w1) \<longrightarrow>
              map_field s = None \<and> map_builds s = 0"
  proof (intro allI impI)
    fix cfg path and self0 s :: "'m cumulus_source" and w0 w1 :: world
    assume i: "init cfg path self0 w0 = (Inr s, w1)"
    from init_Inr[OF i] obtain dir where
      r: "resolve_units cfg path w0 = (None, w1)" and d: "cfg_directory cfg = Some dir"
      and m: "list_all month_ok (glob w0 (log_pattern dir))" and n: "glob w0 (log_pattern dir) \<noteq> []"
      by blast
    from init_catalogue[OF r d m n, of self0] i
    show "map_field s = None \<and> map_builds s = 0" by auto
  qed
qed

lemma example_periods:
  "list_all (\<lambda>p. files example_world_units p \<noteq> None) [''/logs/Dec15log.txt'', ''/logs/Jan16log.txt'']"
  "list_all (\<lambda>p. files example_world_units p \<noteq> None) [''/logs/Dec15log.txt'']"
  "length (delimiter example_instance) = 1"
  by (simp_all add: example_files example_instance_fields)

lemma example_readers:
  "period_reader example_instance example_world_units ''/logs/Dec15log.txt'' =
     \<lparr>rd_lines = [''31/12/15 23:50,4.1,80'' @ newline], rd_fieldnames = field_list,
      rd_delimiter = '',''\<rparr>"
  "period_reader example_instance example_world_units ''/logs/Jan16log.txt'' =
     \<lparr>rd_lines = [''01/01/16 00:00,5.2,81'' @ newline], rd_fieldnames = field_list,
      rd_delimiter = '',''\<rparr>"
  by (simp_all only: period_reader_def example_files example_instance_fields option.case
      example_clean)

theorem map_rebuilt_each_period_witness:
  "list_all (\<lambda>p. files example_world_units p \<noteq> None)
     [''/logs/Dec15log.txt'', ''/logs/Jan16log.txt''] \<and>
   length (delimiter example_instance) = 1 \<and>
   (\<exists>self'. import_periods rows_parseMap [''/logs/Dec15log.txt'', ''/logs/Jan16log.txt'']
               example_instance example_world_units
             = (Inr self', example_world_units\<lparr>opened :=
                  opened example_world_units @ [''/logs/Dec15log.txt'', ''/logs/Jan16log.txt'']\<rparr>) \<and>
            map_builds self' = 2 \<and>
            map_field self' = Some [''01/01/16 00:00,5.2,81'' @ newline])"
proof -
  from map_rebuilt_each_period[OF example_periods(1) example_periods(3), of rows_parseMap]
  obtain self' where
    s: "import_periods rows_parseMap [''/logs/Dec15log.txt'', ''/logs/Jan16log.txt'']
          example_instance example_world_units
        = (Inr self', example_world_units\<lparr>opened :=
             opened example_world_units @ [''/logs/Dec15log.txt'', ''/logs/Jan16log.txt'']\<rparr>)"
       "map_builds self' = map_builds example_instance
          + length [''/logs/Dec15log.txt'', ''/logs/Jan16log.txt'']"
       "map_field self' =
          (if [''/logs/Dec15log.txt'', ''/logs/Jan16log.txt''] = [] then map_field example_instance
           else Some (rows_parseMap (header_map example_world_units) ''Cumulus''
                  (period_reader example_instance example_world_units
                     (last [''/logs/Dec15log.txt'', ''/logs/Jan16log.txt'']))
                  (cumulus_config_dict example_instance)))"
    by blast
  have b: "map_builds self' = 2"
    using s(2) by (simp add: example_instance_fields)
  have "last [''/logs/Dec15log.txt'', ''/logs/Jan16log.txt''] = ''/logs/Jan16log.txt''" by simp
  then have m: "map_field self' = Some [''01/01/16 00:00,5.2,81'' @ newline]"
    using s(3) by (simp only: example_readers rows_parseMap_def) simp
  from s(1) b m example_periods(1,3) show ?thesis by blast
qed

text \<open>
  Claim C1 as it was stated fails on a catalogue of two periods: the map is built for
  the first period and built again for the second, which replaces it. With a stand-in
  for \<^verbatim>\<open>parseMap\<close> that returns the rows of the reader it is given, the map after the
  first period holds the December row and the map after the second the January row.
\<close>

theorem map_built_once_counterexample:
  "import_periods rows_parseMap [''/logs/Dec15log.txt''] example_instance example_world_units =
     (Inr (example_instance\<lparr>map_field := Some [''31/12/15 23:50,4.1,80'' @ newline],
                            map_builds := 1\<rparr>),
      example_world_units\<lparr>opened := [''/logs/Dec15log.txt'']\<rparr>) \<and>
   import_periods rows_parseMap [''/logs/Dec15log.txt'', ''/logs/Jan16log.txt'']
       example_instance example_world_units =
     (Inr (example_instance\<lparr>map_field := Some [''01/01/16 00:00,5.2,81'' @ newline],
                            map_builds := 2\<rparr>),
      example_world_units\<lparr>opened := [''/logs/Dec15log.txt'', ''/logs/Jan16log.txt'']\<rparr>) \<and>
   Some [''01/01/16 00:00,5.2,81'' @ newline] \<noteq> Some [''31/12/15 23:50,4.1,80'' @ newline]"
proof -
  have o: "opened example_world_units = []"
    by (simp add: example_world_units_def example_world_def)
  have g1: "getRawData rows_parseMap ''/logs/Dec15log.txt'' example_instance example_world_units =
     (Inr (\<lparr>rd_lines = [''31/12/15 23:50,4.1,80'' @ newline], rd_fieldnames = field_list,
             rd_delimiter = '',''\<rparr>,
           example_instance\<lparr>map_field := Some [''31/12/15 23:50,4.1,80'' @ newline],
                            map_builds := 1\<rparr>),
      example_world_units\<lparr>opened := [''/logs/Dec15log.txt'']\<rparr>)"
    unfolding getRawData_ok[OF example_files(1) example_periods(3)] example_instance_fields
      example_clean
    by (simp add: rows_parseMap_def o)
  have f2: "files (example_world_units\<lparr>opened := [''/logs/Dec15log.txt'']\<rparr>) ''/logs/Jan16log.txt''
      = Some [''01/01/16,00:00,5.2,81'' @ newline]"
    by (simp add: example_files)
  have d2: "length (delimiter (example_instance\<lparr>map_field := Some [''31/12/15 23:50,4.1,80'' @ newline],
                            map_builds := 1\<rparr>)) = 1"
    by (simp add: example_instance_fields)
  have g2: "getRawData rows_parseMap ''/logs/Jan16log.txt''
       (example_instance\<lparr>map_field := Some [''31/12/15 23:50,4.1,80'' @ newline], map_builds := 1\<rparr>)
       (example_world_units\<lparr>opened := [''/logs/Dec15log.txt'']\<rparr>) =
     (Inr (\<lparr>rd_lines = [''01/01/16 00:00,5.2,81'' @ newline], rd_fieldnames = field_list,
             rd_delimiter = '',''\<rparr>,
           example_instance\<lparr>map_field := Some [''01/01/16 00:00,5.2,81'' @ newline],
                            map_builds := 2\<rparr>),
      example_world_units\<lparr>opened := [''/logs/Dec15log.txt'', ''/logs/Jan16log.txt'']\<rparr>)"
  proof -
    have e: "decimal (example_instance\<lparr>map_field := Some [''31/12/15 23:50,4.1,80'' @ newline],
                 map_builds := 1\<rparr>) = ''.''"
      "delimiter (example_instance\<lparr>map_field := Some [''31/12/15 23:50,4.1,80'' @ newline],
                 map_builds := 1\<rparr>) = '',''"
      by (simp_all add: example_instance_fields)
    show ?thesis
      unfolding getRawData_ok[OF f2 d2] e example_clean
      by (simp add: rows_parseMap_def)
  qed
  have i1: "import_periods rows_parseMap [''/logs/Dec15log.txt''] example_instance
        example_world_units =
     (Inr (example_instance\<lparr>map_field := Some [''31/12/15 23:50,4.1,80'' @ newline],
                            map_builds := 1\<rparr>),
      example_world_units\<lparr>opened := [''/logs/Dec15log.txt'']\<rparr>)"
    by (simp only: import_periods.simps g1 split_conv sum.case)
  have i2: "import_periods rows_parseMap [''/logs/Dec15log.txt'', ''/logs/Jan16log.txt'']
       example_instance example_world_units =
     (Inr (example_instance\<lparr>map_field := Some [''01/01/16 00:00,5.2,81'' @ newline],
                            map_builds := 2\<rparr>),
      example_world_units\<lparr>opened := [''/logs/Dec15log.txt'', ''/logs/Jan16log.txt'']\<rparr>)"
    by (simp only: import_periods.simps g1 g2 split_conv sum.case)
  have ne: "Some [''01/01/16 00:00,5.2,81'' @ newline] \<noteq> Some [''31/12/15 23:50,4.1,80'' @ newline]"
    by simp
  from i1 i2 ne show ?thesis by simp
qed



section \<open>One field table for all instances\<close>





end
